theory Spec2Isabelle
  imports Main
begin

section \<open>Data model\<close>

text \<open>
  The three entities of the application, as \<^verbatim>\<open>types.ts\<close> and the backend models
  declare them. An optional field of the TypeScript interface is an \<open>option\<close>; a
  MongoDB document and the object \<^verbatim>\<open>transformDocument\<close> makes of it differ only in the
  name of the identifier (\<^verbatim>\<open>_id\<close> against \<^verbatim>\<open>id\<close>), so one record serves for both and
  the identifier is kept in its string form. Timestamps are JavaScript numbers holding
  \<^verbatim>\<open>Date.now()\<close>, modelled as integers. The type tag and the status of a message
  are the strings the handlers receive, compare and store. Field names carry the entity
  as a prefix where two interfaces share a name or the name is a keyword.
\<close>

record user =
  user_id :: string
  username :: string
  email :: string
  avatar :: string
  user_status :: string
  lastSeen :: int
  isAdmin :: "bool option"
  isBanned :: "bool option"

record message =
  msg_id :: string
  senderId :: string
  receiverId :: string
  msg_text :: "string option"
  imageUrl :: "string option"
  audioUrl :: "string option"
  fileUrl :: "string option"
  fileName :: "string option"
  fileType :: "string option"
  msg_type :: string
  timestamp :: int
  msg_status :: string
  groupId :: "string option"

record chat_group =
  group_id :: string
  group_name :: string
  group_avatar :: "string option"
  adminId :: string
  memberIds :: "string list"
  createdAt :: int

section \<open>JavaScript values\<close>

text \<open>
  JavaScript truthiness of an optional string and of an optional number: \<open>falsy x\<close>
  is \<^verbatim>\<open>!x\<close>, true of a missing value, of the empty string and of 0.
\<close>

definition falsy :: "string option \<Rightarrow> bool" where
  "falsy x = (case x of None \<Rightarrow> True | Some s \<Rightarrow> s = [])"

definition truthy :: "string option \<Rightarrow> bool" where
  "truthy x = (case x of None \<Rightarrow> False | Some s \<Rightarrow> s \<noteq> [])"

definition falsy_num :: "int option \<Rightarrow> bool" where
  "falsy_num x = (case x of None \<Rightarrow> True | Some n \<Rightarrow> n = 0)"

text \<open>The value of a field that was checked truthy (the empty string otherwise).\<close>

definition str :: "string option \<Rightarrow> string" where
  "str x = (case x of None \<Rightarrow> [] | Some s \<Rightarrow> s)"

definition num :: "int option \<Rightarrow> int" where
  "num x = (case x of None \<Rightarrow> 0 | Some n \<Rightarrow> n)"

section \<open>The client: \<^verbatim>\<open>ApiService\<close> (services/api.ts)\<close>

text \<open>
  The state of the client: the module variable \<^verbatim>\<open>BASE_URL\<close>, the two static flags of
  the class, and the two \<^verbatim>\<open>localStorage\<close> entries the fallback paths read and write
  (each a JSON array, a missing entry reading as \<^verbatim>\<open>[]\<close>).
\<close>

record client =
  BASE_URL :: string
  isConnected :: bool
  connectionAttempted :: bool
  connect_mock_users :: "user list"
  connect_temp_msgs :: "message list"

text \<open>
  What \<^verbatim>\<open>fetch\<close> does for one call: it rejects (no network), the abort controller
  fires after 3000 ms, or a response arrives with a status and a body; the body is given
  by what \<^verbatim>\<open>response.json()\<close> makes of it (\<open>None\<close> when it rejects).
\<close>

datatype 'a fetch_outcome = NetworkError | Aborted | Replied nat "'a option"

datatype js_error = TypeError | AbortError | HttpError nat | SyntaxError

definition response_ok :: "nat \<Rightarrow> bool" where
  "response_ok st = (200 \<le> st \<and> st \<le> 299)"

text \<open>
  The \<^verbatim>\<open>try\<close> block of \<^verbatim>\<open>request\<close>: every \<^verbatim>\<open>throw\<close> and every rejected promise
  is an \<open>Inl\<close>. The flags are set to connected before the body is parsed.
\<close>

definition request_try :: "client \<Rightarrow> 'a fetch_outcome \<Rightarrow> client \<times> (js_error + 'a)" where
  "request_try c out =
     (case out of
        NetworkError \<Rightarrow> (c, Inl TypeError)
      | Aborted \<Rightarrow> (c, Inl AbortError)
      | Replied st body \<Rightarrow>
          if \<not> response_ok st then (c, Inl (HttpError st))
          else
            (let c' = c\<lparr>isConnected := True, connectionAttempted := True\<rparr>
             in case body of None \<Rightarrow> (c', Inl SyntaxError) | Some v \<Rightarrow> (c', Inr v)))"

text \<open>
  \<^verbatim>\<open>request\<close>: \<open>None\<close> is the \<^verbatim>\<open>null\<close> it returns in mock mode and from its
  \<^verbatim>\<open>catch\<close> block. Its result type has no error: nothing is thrown past it.
\<close>

definition request :: "client \<Rightarrow> 'a fetch_outcome \<Rightarrow> 'a option \<times> client" where
  "request c out =
     (if BASE_URL c = ''LOCAL_MOCK'' then (None, c)
      else
        (case request_try c out of
           (c', Inr v) \<Rightarrow> (Some v, c')
         | (c', Inl e) \<Rightarrow> (None, c'\<lparr>isConnected := False, connectionAttempted := True\<rparr>)))"

text \<open>
  The operations that await \<^verbatim>\<open>request\<close> inside \<^verbatim>\<open>try\<close>, drop its result and return
  \<^verbatim>\<open>true\<close>; the \<^verbatim>\<open>catch\<close> block that returns \<^verbatim>\<open>false\<close> handles an exception of
  \<^verbatim>\<open>request\<close>, which has none. The arguments only build the endpoint and the body of
  the call, whose outcome is \<open>out\<close> (\<open>gid\<close> and \<open>aid\<close> stand for the parameters
  \<^verbatim>\<open>groupId\<close> and \<^verbatim>\<open>adminId\<close>, which are field names here).
\<close>

definition ApiService_banUser :: "client \<Rightarrow> unit fetch_outcome \<Rightarrow> string \<Rightarrow> string \<Rightarrow> bool \<times> client" where
  "ApiService_banUser c out userId aid = (case request c out of (r, c') \<Rightarrow> (True, c'))"

definition ApiService_addMemberToGroup ::
  "client \<Rightarrow> unit fetch_outcome \<Rightarrow> string \<Rightarrow> string \<Rightarrow> string \<Rightarrow> bool \<times> client" where
  "ApiService_addMemberToGroup c out gid userId aid = (case request c out of (r, c') \<Rightarrow> (True, c'))"

definition ApiService_removeMemberFromGroup ::
  "client \<Rightarrow> unit fetch_outcome \<Rightarrow> string \<Rightarrow> string \<Rightarrow> string \<Rightarrow> bool \<times> client" where
  "ApiService_removeMemberFromGroup c out gid userId aid =
     (case request c out of (r, c') \<Rightarrow> (True, c'))"

definition ApiService_deleteUser :: "client \<Rightarrow> unit fetch_outcome \<Rightarrow> string \<Rightarrow> bool \<times> client" where
  "ApiService_deleteUser c out userId = (case request c out of (r, c') \<Rightarrow> (True, c'))"

definition ApiService_deleteGroup :: "client \<Rightarrow> unit fetch_outcome \<Rightarrow> string \<Rightarrow> string \<Rightarrow> bool \<times> client" where
  "ApiService_deleteGroup c out gid userId = (case request c out of (r, c') \<Rightarrow> (True, c'))"

definition ApiService_editMessage ::
  "client \<Rightarrow> unit fetch_outcome \<Rightarrow> string \<Rightarrow> string \<Rightarrow> string \<Rightarrow> bool \<times> client" where
  "ApiService_editMessage c out messageId newText userId = (case request c out of (r, c') \<Rightarrow> (True, c'))"

definition ApiService_deleteMessage ::
  "client \<Rightarrow> unit fetch_outcome \<Rightarrow> string \<Rightarrow> string \<Rightarrow> bool \<times> client" where
  "ApiService_deleteMessage c out messageId userId = (case request c out of (r, c') \<Rightarrow> (True, c'))"

text \<open>The operations that return what \<^verbatim>\<open>request\<close> returned.\<close>

definition ApiService_cleanupTestData ::
  "client \<Rightarrow> (nat \<times> nat \<times> nat) fetch_outcome \<Rightarrow> string \<Rightarrow> (nat \<times> nat \<times> nat) option \<times> client" where
  "ApiService_cleanupTestData c out aid = request c out"

definition ApiService_createGroup ::
  "client \<Rightarrow> chat_group fetch_outcome \<Rightarrow> chat_group \<Rightarrow> chat_group option \<times> client" where
  "ApiService_createGroup c out data = request c out"

definition ApiService_getUserGroups ::
  "client \<Rightarrow> chat_group list fetch_outcome \<Rightarrow> string \<Rightarrow> chat_group list option \<times> client" where
  "ApiService_getUserGroups c out userId = request c out"

definition ApiService_getGroupMessages ::
  "client \<Rightarrow> message list fetch_outcome \<Rightarrow> string \<Rightarrow> message list option \<times> client" where
  "ApiService_getGroupMessages c out gid = request c out"

text \<open>\<^verbatim>\<open>getAllGroupsForAdmin\<close> replaces a \<^verbatim>\<open>null\<close> by the empty array.\<close>

definition ApiService_getAllGroupsForAdmin ::
  "client \<Rightarrow> chat_group list fetch_outcome \<Rightarrow> string \<Rightarrow> chat_group list \<times> client" where
  "ApiService_getAllGroupsForAdmin c out aid =
     (case request c out of (None, c') \<Rightarrow> ([], c') | (Some groups, c') \<Rightarrow> (groups, c'))"

text \<open>A client whose backend is configured and whose stores are empty.\<close>

definition client0 :: client where
  "client0 = \<lparr>BASE_URL = ''http://localhost:3001'', isConnected = False,
     connectionAttempted = False, connect_mock_users = [], connect_temp_msgs = []\<rparr>"

text \<open>
  \<^verbatim>\<open>getGravatar\<close>: the avatar URL from the trimmed, lower-cased email (ASCII letters
  and the blank, tab and line-end characters).
\<close>

definition toLowerCase :: "string \<Rightarrow> string" where
  "toLowerCase =
     map (\<lambda>c. case map_of (zip ''ABCDEFGHIJKLMNOPQRSTUVWXYZ'' ''abcdefghijklmnopqrstuvwxyz'') c of
                 Some l \<Rightarrow> l | None \<Rightarrow> c)"

definition trim :: "string \<Rightarrow> string" where
  "trim s =
     (let ws = (\<lambda>c. c \<in> set [CHR '' '', CHR 0x09, CHR 0x0A, CHR 0x0D])
      in rev (dropWhile ws (rev (dropWhile ws s))))"

definition getGravatar :: "string \<Rightarrow> string" where
  "getGravatar e = ''https://api.dicebear.com/7.x/avataaars/svg?seed='' @ toLowerCase (trim e)"

text \<open>
  What \<^verbatim>\<open>registerUser\<close> is called with: \<^verbatim>\<open>App.tsx\<close> passes the name and the email of
  the login form; an avatar is optional.
\<close>

record register_data =
  rd_username :: string
  rd_email :: string
  rd_avatar :: "string option"

text \<open>
  \<^verbatim>\<open>registerUser\<close>. \<open>out\<close> is the outcome of \<^verbatim>\<open>POST /users\<close>, \<open>rnd\<close> the nine
  characters \<^verbatim>\<open>Math.random().toString(36).substr(2, 9)\<close> yields, \<open>now\<close> the value of
  \<^verbatim>\<open>Date.now()\<close>. Without a response the user is looked up by email in the local
  store and appended to it when absent.
\<close>

definition ApiService_registerUser ::
  "client \<Rightarrow> user fetch_outcome \<Rightarrow> string \<Rightarrow> int \<Rightarrow> register_data \<Rightarrow> user \<times> client" where
  "ApiService_registerUser c out rnd now userData =
     (case request c out of
        (Some response, c') \<Rightarrow> (response, c')
      | (None, c') \<Rightarrow>
          (let localUser =
                 \<lparr>user_id = ''u-'' @ rnd,
                  username = rd_username userData,
                  email = rd_email userData,
                  avatar = (if truthy (rd_avatar userData) then str (rd_avatar userData)
                            else getGravatar (rd_email userData)),
                  user_status = ''Hey there! I am using Connect.'',
                  lastSeen = now, isAdmin = None, isBanned = None\<rparr>
           in case find (\<lambda>u. email u = email localUser) (connect_mock_users c') of
                None \<Rightarrow> (localUser, c'\<lparr>connect_mock_users := connect_mock_users c' @ [localUser]\<rparr>)
              | Some existing \<Rightarrow> (existing, c')))"

definition ApiService_getUniverse :: "client \<Rightarrow> user list fetch_outcome \<Rightarrow> user list \<times> client" where
  "ApiService_getUniverse c out =
     (case request c out of
        (None, c') \<Rightarrow> (connect_mock_users c', c')
      | (Some us, c') \<Rightarrow> (us, c'))"



section \<open>The backend: the document store\<close>

text \<open>
  The three MongoDB collections, each as the list of its documents in insertion
  order. \<open>messages_validator\<close> and \<open>users_validator\<close> are the \<^verbatim>\<open>$jsonSchema\<close>
  validators of the collections: \<^verbatim>\<open>initializeCollection\<close> installs one outside
  production (messages) or when it creates the collection (users), so a deployment may
  run without (the predicate that accepts every document).
\<close>

record db =
  users :: "user list"
  messages :: "message list"
  groups :: "chat_group list"
  users_validator :: "user \<Rightarrow> bool"
  messages_validator :: "message \<Rightarrow> bool"

text \<open>
  What the driver throws: the constructor \<^verbatim>\<open>new ObjectId(s)\<close> on a string that is not
  an identifier, and a write the server rejects, with its code (121: the document fails
  validation; 11000: duplicate key).
\<close>

datatype server_error = BSONError | MongoServerError nat

definition hexDigit :: "char \<Rightarrow> bool" where
  "hexDigit c = (c \<in> set ''0123456789abcdefABCDEF'')"

definition toLowerHex :: "char \<Rightarrow> char" where
  "toLowerHex c = (case map_of (zip ''ABCDEF'' ''abcdef'') c of Some l \<Rightarrow> l | None \<Rightarrow> c)"

text \<open>
  \<^verbatim>\<open>new ObjectId(s)\<close> for a string: the identifier, in the lower-case form
  \<^verbatim>\<open>toString()\<close> prints and the documents keep, when \<open>s\<close> is 24 hexadecimal digits;
  an exception otherwise.
\<close>

definition newObjectId :: "string \<Rightarrow> server_error + string" where
  "newObjectId s =
     (if length s = 24 \<and> list_all hexDigit s then Inr (map toLowerHex s) else Inl BSONError)"

text \<open>\<^verbatim>\<open>if (data.f) doc.f = data.f\<close>: a document field is set only from a truthy value.\<close>

definition set_if_truthy :: "string option \<Rightarrow> string option" where
  "set_if_truthy x = (if truthy x then x else None)"

text \<open>
  \<^verbatim>\<open>updateOne\<close> and \<^verbatim>\<open>findOneAndUpdate\<close> change the first document the filter
  matches.
\<close>

fun update_first :: "('a \<Rightarrow> bool) \<Rightarrow> ('a \<Rightarrow> 'a) \<Rightarrow> 'a list \<Rightarrow> 'a list" where
  "update_first p f [] = []"
| "update_first p f (x # xs) = (if p x then f x # xs else x # update_first p f xs)"

text \<open>The JSON body of a response and the response: status and body.\<close>

datatype body =
    JError string
  | JInfo string
  | JUser user
  | JUsers "user list"
  | JMessage message
  | JMessages "message list"
  | JGroup chat_group
  | JGroups "chat_group list"
  | JCounts nat nat nat

type_synonym response = "nat \<times> body"

section \<open>The backend: \<^verbatim>\<open>MessageModel\<close> (models/Message.ts)\<close>

text \<open>
  \<^verbatim>\<open>createMessage\<close>: the document takes the required fields and each optional field
  that is truthy; \<open>oid\<close> is the identifier \<^verbatim>\<open>insertOne\<close> generates. The method returns
  the data it was given, with the identifier.
\<close>

definition MessageModel_createMessage ::
  "db \<Rightarrow> string \<Rightarrow> message \<Rightarrow> server_error + (message \<times> db)" where
  "MessageModel_createMessage d oid messageData =
     (let messageDoc = messageData\<lparr>
            msg_id := oid,
            msg_text := set_if_truthy (msg_text messageData),
            imageUrl := set_if_truthy (imageUrl messageData),
            audioUrl := set_if_truthy (audioUrl messageData),
            fileUrl := set_if_truthy (fileUrl messageData),
            fileName := set_if_truthy (fileName messageData),
            fileType := set_if_truthy (fileType messageData),
            groupId := set_if_truthy (groupId messageData)\<rparr>
      in if \<not> messages_validator d messageDoc then Inl (MongoServerError 121)
         else if list_ex (\<lambda>m. msg_id m = oid) (messages d) then Inl (MongoServerError 11000)
         else Inr (messageData\<lparr>msg_id := oid\<rparr>, d\<lparr>messages := messages d @ [messageDoc]\<rparr>))"

text \<open>
  \<^verbatim>\<open>getMessagesBetweenUsers\<close>: the bidirectional filter, the sort on the timestamp
  (ascending, documents with equal timestamps in the order of the collection) and the
  limit of 500.
\<close>

definition MessageModel_getMessagesBetweenUsers :: "db \<Rightarrow> string \<Rightarrow> string \<Rightarrow> message list" where
  "MessageModel_getMessagesBetweenUsers d user1Id user2Id =
     take 500 (sort_key timestamp
       (filter (\<lambda>m. (senderId m = user1Id \<and> receiverId m = user2Id)
                   \<or> (senderId m = user2Id \<and> receiverId m = user1Id)) (messages d)))"

definition MessageModel_getGroupMessages :: "db \<Rightarrow> string \<Rightarrow> message list" where
  "MessageModel_getGroupMessages d gid =
     take 500 (sort_key timestamp (filter (\<lambda>m. groupId m = Some gid) (messages d)))"

text \<open>
  \<^verbatim>\<open>findOneAndUpdate({_id}, {$set: ...}, {returnDocument: 'after'})\<close> on the messages:
  \<^verbatim>\<open>null\<close> when no document has the identifier, the updated document otherwise; the
  server rejects an update whose result fails the validator.
\<close>

definition messages_findOneAndUpdate ::
  "db \<Rightarrow> string \<Rightarrow> (message \<Rightarrow> message) \<Rightarrow> server_error + (message option \<times> db)" where
  "messages_findOneAndUpdate d oid f =
     (case find (\<lambda>m. msg_id m = oid) (messages d) of
        None \<Rightarrow> Inr (None, d)
      | Some m \<Rightarrow>
          if f m = m then Inr (Some m, d)
          else if \<not> messages_validator d (f m) then Inl (MongoServerError 121)
          else Inr (Some (f m), d\<lparr>messages := update_first (\<lambda>m. msg_id m = oid) f (messages d)\<rparr>))"

definition MessageModel_updateMessageStatus ::
  "db \<Rightarrow> string \<Rightarrow> string \<Rightarrow> server_error + (message option \<times> db)" where
  "MessageModel_updateMessageStatus d messageId status =
     (case newObjectId messageId of
        Inl e \<Rightarrow> Inl e
      | Inr objectId \<Rightarrow> messages_findOneAndUpdate d objectId (\<lambda>m. m\<lparr>msg_status := status\<rparr>))"

definition MessageModel_updateMessageText ::
  "db \<Rightarrow> string \<Rightarrow> string \<Rightarrow> server_error + (message option \<times> db)" where
  "MessageModel_updateMessageText d messageId newText =
     (case newObjectId messageId of
        Inl e \<Rightarrow> Inl e
      | Inr objectId \<Rightarrow> messages_findOneAndUpdate d objectId (\<lambda>m. m\<lparr>msg_text := Some newText\<rparr>))"

definition MessageModel_deleteMessage :: "db \<Rightarrow> string \<Rightarrow> server_error + (bool \<times> db)" where
  "MessageModel_deleteMessage d messageId =
     (case newObjectId messageId of
        Inl e \<Rightarrow> Inl e
      | Inr objectId \<Rightarrow>
          (case find (\<lambda>m. msg_id m = objectId) (messages d) of
             None \<Rightarrow> Inr (False, d)
           | Some m \<Rightarrow> Inr (True, d\<lparr>messages := remove1 m (messages d)\<rparr>)))"

definition MessageModel_deleteAllMessagesFromUser :: "db \<Rightarrow> string \<Rightarrow> nat \<times> db" where
  "MessageModel_deleteAllMessagesFromUser d userId =
     (length (filter (\<lambda>m. senderId m = userId \<or> receiverId m = userId) (messages d)),
      d\<lparr>messages := filter (\<lambda>m. \<not> (senderId m = userId \<or> receiverId m = userId)) (messages d)\<rparr>)"

definition MessageModel_deleteAllMessagesInGroup :: "db \<Rightarrow> string \<Rightarrow> nat \<times> db" where
  "MessageModel_deleteAllMessagesInGroup d gid =
     (length (filter (\<lambda>m. groupId m = Some gid) (messages d)),
      d\<lparr>messages := filter (\<lambda>m. groupId m \<noteq> Some gid) (messages d)\<rparr>)"

definition MessageModel_deleteAllMessages :: "db \<Rightarrow> nat \<times> db" where
  "MessageModel_deleteAllMessages d = (length (messages d), d\<lparr>messages := []\<rparr>)"

text \<open>
  \<^verbatim>\<open>checkDuplicateMessage\<close>: is there a document with this sender, receiver and
  timestamp. The controller passes the \<^verbatim>\<open>receiverId\<close> of the request body, which may be
  absent; every document has a receiver, so an absent one matches none.
\<close>

definition MessageModel_checkDuplicateMessage ::
  "db \<Rightarrow> string \<Rightarrow> string option \<Rightarrow> int \<Rightarrow> bool" where
  "MessageModel_checkDuplicateMessage d sid rid ts =
     list_ex (\<lambda>m. senderId m = sid \<and> Some (receiverId m) = rid \<and> timestamp m = ts) (messages d)"

text \<open>The validator \<^verbatim>\<open>initializeCollection\<close> installs on the messages outside production.\<close>

definition messageSchema :: "message \<Rightarrow> bool" where
  "messageSchema m =
     ((case msg_text m of None \<Rightarrow> True | Some t \<Rightarrow> length t \<le> 5000)
      \<and> msg_type m \<in> set [''text'', ''image'', ''audio'', ''file'']
      \<and> 0 \<le> timestamp m
      \<and> msg_status m \<in> set [''sent'', ''delivered'', ''read''])"

section \<open>The backend: \<^verbatim>\<open>UserModel\<close> (models/User.ts)\<close>

definition UserModel_transformDocument :: "user \<Rightarrow> user" where
  "UserModel_transformDocument doc =
     doc\<lparr>isAdmin := (if isAdmin doc = Some True then Some True
                      else Some (email doc = ''admin0909@gmail.com''))\<rparr>"

text \<open>
  \<^verbatim>\<open>createUser\<close>: the document gets \<^verbatim>\<open>isAdmin\<close> from the email and no
  \<^verbatim>\<open>isBanned\<close>; the method returns the data it was given, with the identifier. It is
  called only after \<^verbatim>\<open>findUserByEmail\<close> found no document, so the unique index on the
  email does not reject the insertion.
\<close>

definition UserModel_createUser :: "db \<Rightarrow> string \<Rightarrow> user \<Rightarrow> server_error + (user \<times> db)" where
  "UserModel_createUser d oid userData =
     (let userDoc = userData\<lparr>user_id := oid,
            isAdmin := Some (email userData = ''admin0909@gmail.com''), isBanned := None\<rparr>
      in if \<not> users_validator d userDoc then Inl (MongoServerError 121)
         else if list_ex (\<lambda>u. user_id u = oid) (users d) then Inl (MongoServerError 11000)
         else Inr (userData\<lparr>user_id := oid\<rparr>, d\<lparr>users := users d @ [userDoc]\<rparr>))"

definition UserModel_findUserByEmail :: "db \<Rightarrow> string \<Rightarrow> user option" where
  "UserModel_findUserByEmail d e =
     map_option UserModel_transformDocument (find (\<lambda>u. email u = e) (users d))"

definition UserModel_findUserById :: "db \<Rightarrow> string \<Rightarrow> user option" where
  "UserModel_findUserById d userId =
     (case newObjectId userId of
        Inl e \<Rightarrow> None
      | Inr objectId \<Rightarrow>
          map_option UserModel_transformDocument (find (\<lambda>u. user_id u = objectId) (users d)))"

definition UserModel_getAllUsers :: "db \<Rightarrow> user list" where
  "UserModel_getAllUsers d =
     map UserModel_transformDocument (filter (\<lambda>u. isBanned u \<noteq> Some True) (users d))"

definition UserModel_getAllUsersForAdmin :: "db \<Rightarrow> user list" where
  "UserModel_getAllUsersForAdmin d = map UserModel_transformDocument (users d)"

text \<open>
  \<^verbatim>\<open>updateOne({_id}, {$set: ...})\<close> on the users, with the \<^verbatim>\<open>modifiedCount\<close> of its
  result: 0 when no document has the identifier and when the one that has it already
  holds the values, 1 when the document changed. The server rejects an update whose
  result fails the validator.
\<close>

definition users_updateOne :: "db \<Rightarrow> string \<Rightarrow> (user \<Rightarrow> user) \<Rightarrow> server_error + (nat \<times> db)" where
  "users_updateOne d oid f =
     (case find (\<lambda>u. user_id u = oid) (users d) of
        None \<Rightarrow> Inr (0, d)
      | Some u \<Rightarrow>
          if f u = u then Inr (0, d)
          else if \<not> users_validator d (f u) then Inl (MongoServerError 121)
          else Inr (1, d\<lparr>users := update_first (\<lambda>u. user_id u = oid) f (users d)\<rparr>))"

definition UserModel_deleteUser :: "db \<Rightarrow> string \<Rightarrow> server_error + (bool \<times> db)" where
  "UserModel_deleteUser d userId =
     (case newObjectId userId of
        Inl e \<Rightarrow> Inl e
      | Inr objectId \<Rightarrow>
          (case users_updateOne d objectId (\<lambda>u. u\<lparr>isBanned := Some True\<rparr>) of
             Inl e \<Rightarrow> Inl e
           | Inr (modifiedCount, d') \<Rightarrow> Inr (modifiedCount = 1, d')))"

definition UserModel_banUser :: "db \<Rightarrow> string \<Rightarrow> server_error + (bool \<times> db)" where
  "UserModel_banUser d userId =
     (case newObjectId userId of
        Inl e \<Rightarrow> Inl e
      | Inr objectId \<Rightarrow>
          (case users_updateOne d objectId (\<lambda>u. u\<lparr>isBanned := Some True\<rparr>) of
             Inl e \<Rightarrow> Inl e
           | Inr (modifiedCount, d') \<Rightarrow> Inr (modifiedCount = 1, d')))"

text \<open>\<^verbatim>\<open>updateLastSeen\<close>, with \<open>now\<close> the value of \<^verbatim>\<open>Date.now()\<close>.\<close>

definition UserModel_updateLastSeen :: "db \<Rightarrow> string \<Rightarrow> int \<Rightarrow> server_error + db" where
  "UserModel_updateLastSeen d userId now =
     (case newObjectId userId of
        Inl e \<Rightarrow> Inl e
      | Inr objectId \<Rightarrow>
          (case users_updateOne d objectId (\<lambda>u. u\<lparr>lastSeen := now\<rparr>) of
             Inl e \<Rightarrow> Inl e
           | Inr (modifiedCount, d') \<Rightarrow> Inr d'))"

definition UserModel_isUserBanned :: "db \<Rightarrow> string \<Rightarrow> bool" where
  "UserModel_isUserBanned d userId =
     (case newObjectId userId of
        Inl e \<Rightarrow> False
      | Inr objectId \<Rightarrow>
          (case find (\<lambda>u. user_id u = objectId) (users d) of
             None \<Rightarrow> False
           | Some u \<Rightarrow> isBanned u = Some True))"

text \<open>
  \<^verbatim>\<open>updateUser\<close>: \<^verbatim>\<open>findOneAndUpdate\<close> with the fields the controller collected
  (each present or not) and the new \<^verbatim>\<open>lastSeen\<close>.
\<close>

definition UserModel_updateUser ::
  "db \<Rightarrow> string \<Rightarrow> (user \<Rightarrow> user) \<Rightarrow> server_error + (user option \<times> db)" where
  "UserModel_updateUser d userId updates =
     (case newObjectId userId of
        Inl e \<Rightarrow> Inl e
      | Inr objectId \<Rightarrow>
          (case find (\<lambda>u. user_id u = objectId) (users d) of
             None \<Rightarrow> Inr (None, d)
           | Some u \<Rightarrow>
               if updates u = u then Inr (Some (UserModel_transformDocument u), d)
               else if \<not> users_validator d (updates u) then Inl (MongoServerError 121)
               else Inr (Some (UserModel_transformDocument (updates u)),
                      d\<lparr>users := update_first (\<lambda>u. user_id u = objectId) updates (users d)\<rparr>)))"

definition UserModel_permanentlyDeleteUser :: "db \<Rightarrow> string \<Rightarrow> server_error + (bool \<times> db)" where
  "UserModel_permanentlyDeleteUser d userId =
     (case newObjectId userId of
        Inl e \<Rightarrow> Inl e
      | Inr objectId \<Rightarrow>
          (case find (\<lambda>u. user_id u = objectId) (users d) of
             None \<Rightarrow> Inr (False, d)
           | Some u \<Rightarrow> Inr (True, d\<lparr>users := remove1 u (users d)\<rparr>)))"

definition UserModel_deleteAllUsersExceptAdmin :: "db \<Rightarrow> nat \<times> db" where
  "UserModel_deleteAllUsersExceptAdmin d =
     (length (filter (\<lambda>u. email u \<noteq> ''admin0909@gmail.com'') (users d)),
      d\<lparr>users := filter (\<lambda>u. email u = ''admin0909@gmail.com'') (users d)\<rparr>)"

section \<open>The backend: \<^verbatim>\<open>GroupModel\<close> (models/Group.ts)\<close>

definition GroupModel_createGroup ::
  "db \<Rightarrow> string \<Rightarrow> chat_group \<Rightarrow> server_error + (chat_group \<times> db)" where
  "GroupModel_createGroup d oid groupData =
     (if list_ex (\<lambda>g. group_id g = oid) (groups d) then Inl (MongoServerError 11000)
      else Inr (groupData\<lparr>group_id := oid\<rparr>,
             d\<lparr>groups := groups d @ [groupData\<lparr>group_id := oid\<rparr>]\<rparr>))"

definition GroupModel_getGroupsForUser :: "db \<Rightarrow> string \<Rightarrow> chat_group list" where
  "GroupModel_getGroupsForUser d userId = filter (\<lambda>g. userId \<in> set (memberIds g)) (groups d)"

definition GroupModel_getGroup :: "db \<Rightarrow> string \<Rightarrow> chat_group option" where
  "GroupModel_getGroup d gid =
     (case newObjectId gid of
        Inl e \<Rightarrow> None
      | Inr objectId \<Rightarrow> find (\<lambda>g. group_id g = objectId) (groups d))"

definition GroupModel_deleteGroup :: "db \<Rightarrow> string \<Rightarrow> server_error + (bool \<times> db)" where
  "GroupModel_deleteGroup d gid =
     (case newObjectId gid of
        Inl e \<Rightarrow> Inl e
      | Inr objectId \<Rightarrow>
          (case find (\<lambda>g. group_id g = objectId) (groups d) of
             None \<Rightarrow> Inr (False, d)
           | Some g \<Rightarrow> Inr (True, d\<lparr>groups := remove1 g (groups d)\<rparr>)))"

text \<open>
  \<^verbatim>\<open>removeUserFromAllGroups\<close>: \<^verbatim>\<open>updateMany\<close> with \<^verbatim>\<open>$pull\<close> takes the user out of
  the members of every group that lists them; the result counts those groups.
\<close>

definition GroupModel_removeUserFromAllGroups :: "db \<Rightarrow> string \<Rightarrow> nat \<times> db" where
  "GroupModel_removeUserFromAllGroups d userId =
     (length (filter (\<lambda>g. userId \<in> set (memberIds g)) (groups d)),
      d\<lparr>groups := map (\<lambda>g. g\<lparr>memberIds := filter (\<lambda>i. i \<noteq> userId) (memberIds g)\<rparr>) (groups d)\<rparr>)"

definition GroupModel_getAllGroups :: "db \<Rightarrow> chat_group list" where
  "GroupModel_getAllGroups d = groups d"

definition GroupModel_deleteAllGroups :: "db \<Rightarrow> nat \<times> db" where
  "GroupModel_deleteAllGroups d = (length (groups d), d\<lparr>groups := []\<rparr>)"

text \<open>
  \<^verbatim>\<open>updateOne\<close> on the groups with a change of the members, and the
  \<^verbatim>\<open>modifiedCount === 1\<close> the two methods below return.
\<close>

definition groups_updateMembers ::
  "db \<Rightarrow> string \<Rightarrow> (string list \<Rightarrow> string list) \<Rightarrow> server_error + (bool \<times> db)" where
  "groups_updateMembers d gid f =
     (case newObjectId gid of
        Inl e \<Rightarrow> Inl e
      | Inr objectId \<Rightarrow>
          (case find (\<lambda>g. group_id g = objectId) (groups d) of
             None \<Rightarrow> Inr (False, d)
           | Some g \<Rightarrow>
               if f (memberIds g) = memberIds g then Inr (False, d)
               else Inr (True, d\<lparr>groups := update_first (\<lambda>g. group_id g = objectId)
                                  (\<lambda>g. g\<lparr>memberIds := f (memberIds g)\<rparr>) (groups d)\<rparr>)))"

text \<open>\<^verbatim>\<open>$addToSet\<close> appends a value the array does not hold.\<close>

definition GroupModel_addMemberToGroup :: "db \<Rightarrow> string \<Rightarrow> string \<Rightarrow> server_error + (bool \<times> db)" where
  "GroupModel_addMemberToGroup d gid userId =
     groups_updateMembers d gid (\<lambda>ms. if userId \<in> set ms then ms else ms @ [userId])"

text \<open>\<^verbatim>\<open>$pull\<close> removes every occurrence of the value.\<close>

definition GroupModel_removeMemberFromGroup ::
  "db \<Rightarrow> string \<Rightarrow> string \<Rightarrow> server_error + (bool \<times> db)" where
  "GroupModel_removeMemberFromGroup d gid userId =
     groups_updateMembers d gid (filter (\<lambda>i. i \<noteq> userId))"

section \<open>The backend: \<^verbatim>\<open>MessageController\<close> (controllers/messageController.ts)\<close>

text \<open>The fields \<^verbatim>\<open>sendMessage\<close> reads from the body of \<^verbatim>\<open>POST /messages\<close>.\<close>

record message_request =
  req_senderId :: "string option"
  req_receiverId :: "string option"
  req_text :: "string option"
  req_imageUrl :: "string option"
  req_audioUrl :: "string option"
  req_fileUrl :: "string option"
  req_fileName :: "string option"
  req_fileType :: "string option"
  req_type :: "string option"
  req_timestamp :: "int option"
  req_status :: "string option"
  req_groupId :: "string option"

text \<open>
  \<^verbatim>\<open>sendMessage\<close>. The checks are in the order of the source; the \<^verbatim>\<open>catch\<close> block
  answers 400 to a validation error (code 121) and 500 to any other.
\<close>

definition MessageController_sendMessage :: "db \<Rightarrow> string \<Rightarrow> message_request \<Rightarrow> response \<times> db" where
  "MessageController_sendMessage d oid req =
     (if falsy (req_senderId req)
         \<or> (falsy (req_receiverId req) \<and> falsy (req_groupId req))
         \<or> falsy (req_type req) \<or> falsy_num (req_timestamp req)
      then ((400, JError ''Missing required fields''), d)
      else if req_type req \<noteq> Some ''text'' \<and> req_type req \<noteq> Some ''image''
              \<and> req_type req \<noteq> Some ''audio'' \<and> req_type req \<noteq> Some ''file''
      then ((400, JError ''Invalid type''), d)
      else if req_type req = Some ''text'' \<and> falsy (req_text req)
      then ((400, JError ''Missing text content''), d)
      else if req_type req = Some ''image'' \<and> falsy (req_imageUrl req)
      then ((400, JError ''Missing image URL''), d)
      else if req_type req = Some ''audio'' \<and> falsy (req_audioUrl req)
      then ((400, JError ''Missing audio URL''), d)
      else if req_type req = Some ''file'' \<and> falsy (req_fileUrl req)
      then ((400, JError ''Missing file URL''), d)
      else if MessageModel_checkDuplicateMessage d (str (req_senderId req)) (req_receiverId req)
                (num (req_timestamp req))
      then ((200, JInfo ''Duplicate message detected, skipping creation''), d)
      else if UserModel_isUserBanned d (str (req_senderId req))
      then ((403, JError ''You are banned and cannot send messages''), d)
      else
        (case MessageModel_createMessage d oid
           \<lparr>msg_id = [],
            senderId = str (req_senderId req),
            receiverId = (if truthy (req_groupId req) then str (req_groupId req)
                          else str (req_receiverId req)),
            msg_text = req_text req,
            imageUrl = req_imageUrl req,
            audioUrl = req_audioUrl req,
            fileUrl = req_fileUrl req,
            fileName = req_fileName req,
            fileType = req_fileType req,
            msg_type = str (req_type req),
            timestamp = num (req_timestamp req),
            msg_status = (if truthy (req_status req) then str (req_status req) else ''sent''),
            groupId = req_groupId req\<rparr>
         of Inr (newMessage, d') \<Rightarrow> ((201, JMessage newMessage), d')
          | Inl e \<Rightarrow>
              if e = MongoServerError 121 then ((400, JError ''Validation error''), d)
              else ((500, JError ''Internal server error''), d)))"

text \<open>\<^verbatim>\<open>getMessages\<close>, from the query parameters \<^verbatim>\<open>u1\<close>, \<^verbatim>\<open>u2\<close> and \<^verbatim>\<open>groupId\<close>.\<close>

definition MessageController_getMessages ::
  "db \<Rightarrow> string option \<Rightarrow> string option \<Rightarrow> string option \<Rightarrow> response" where
  "MessageController_getMessages d u1 u2 gid =
     (if truthy gid then (200, JMessages (MessageModel_getGroupMessages d (str gid)))
      else if falsy u1 \<or> falsy u2 then (400, JError ''Missing query parameters'')
      else (200, JMessages (MessageModel_getMessagesBetweenUsers d (str u1) (str u2))))"

text \<open>\<^verbatim>\<open>updateMessageStatus\<close>, from the path parameter and the \<^verbatim>\<open>status\<close> of the body.\<close>

definition MessageController_updateMessageStatus ::
  "db \<Rightarrow> string \<Rightarrow> string option \<Rightarrow> response \<times> db" where
  "MessageController_updateMessageStatus d ident status =
     (if falsy status then ((400, JError ''Missing status field''), d)
      else if status \<noteq> Some ''sent'' \<and> status \<noteq> Some ''delivered'' \<and> status \<noteq> Some ''read''
      then ((400, JError ''Invalid status''), d)
      else
        (case MessageModel_updateMessageStatus d ident (str status) of
           Inl e \<Rightarrow> ((500, JError ''Internal server error''), d)
         | Inr (None, d') \<Rightarrow> ((404, JError ''Message not found''), d')
         | Inr (Some updatedMessage, d') \<Rightarrow> ((200, JMessage updatedMessage), d')))"

text \<open>
  \<^verbatim>\<open>editMessage\<close>, from the path parameter and the \<^verbatim>\<open>text\<close> and \<^verbatim>\<open>userId\<close> of the
  body: the text is written first, the sender is compared afterwards, on the updated
  document, and the 403 branch only answers.
\<close>

definition MessageController_editMessage ::
  "db \<Rightarrow> string \<Rightarrow> string option \<Rightarrow> string option \<Rightarrow> response \<times> db" where
  "MessageController_editMessage d ident newText userId =
     (if falsy newText \<or> falsy userId
      then ((400, JError ''Missing required fields''), d)
      else
        (case MessageModel_updateMessageText d ident (str newText) of
           Inl e \<Rightarrow> ((500, JError ''Internal server error''), d)
         | Inr (None, d') \<Rightarrow> ((404, JError ''Message not found''), d')
         | Inr (Some updatedMessage, d') \<Rightarrow>
             if senderId updatedMessage \<noteq> str userId then ((403, JError ''Unauthorized''), d')
             else ((200, JMessage updatedMessage), d')))"

definition MessageController_deleteMessage ::
  "db \<Rightarrow> string \<Rightarrow> string option \<Rightarrow> response \<times> db" where
  "MessageController_deleteMessage d ident userId =
     (if falsy userId then ((400, JError ''Missing userId''), d)
      else
        (case MessageModel_deleteMessage d ident of
           Inl e \<Rightarrow> ((500, JError ''Internal server error''), d)
         | Inr (False, d') \<Rightarrow> ((404, JError ''Message not found''), d')
         | Inr (True, d') \<Rightarrow> ((200, JInfo ''Message deleted successfully''), d')))"

section \<open>The backend: \<^verbatim>\<open>UserController\<close> (controllers/userController.ts)\<close>

text \<open>
  The fields \<^verbatim>\<open>registerUser\<close> reads from the body of \<^verbatim>\<open>POST /users\<close>. In the handlers
  below \<open>oid\<close> is the identifier an insertion generates and \<open>now\<close> the value of
  \<^verbatim>\<open>Date.now()\<close>.
\<close>

record register_request =
  reg_username :: "string option"
  reg_email :: "string option"
  reg_avatar :: "string option"
  reg_status :: "string option"

text \<open>The \<^verbatim>\<open>catch\<close> block of \<^verbatim>\<open>registerUser\<close> and \<^verbatim>\<open>updateUser\<close>.\<close>

definition validation_or_internal :: "server_error \<Rightarrow> response" where
  "validation_or_internal e =
     (if e = MongoServerError 121 then (400, JError ''Validation error'')
      else (500, JError ''Internal server error''))"

definition UserController_registerUser ::
  "db \<Rightarrow> string \<Rightarrow> int \<Rightarrow> register_request \<Rightarrow> response \<times> db" where
  "UserController_registerUser d oid now req =
     (if falsy (reg_username req) \<or> falsy (reg_email req)
      then ((400, JError ''Missing required fields''), d)
      else
        (case UserModel_findUserByEmail d (str (reg_email req)) of
           Some existingUser \<Rightarrow>
             (case UserModel_updateLastSeen d (user_id existingUser) now of
                Inl e \<Rightarrow> (validation_or_internal e, d)
              | Inr d' \<Rightarrow> ((200, JUser existingUser), d'))
         | None \<Rightarrow>
             (case UserModel_createUser d oid
                \<lparr>user_id = [],
                 username = str (reg_username req),
                 email = str (reg_email req),
                 avatar = (if truthy (reg_avatar req) then str (reg_avatar req)
                           else ''https://api.dicebear.com/7.x/avataaars/svg?seed=''
                                @ str (reg_email req)),
                 user_status = (if truthy (reg_status req) then str (reg_status req)
                                else ''Hey there! I am using Connect.''),
                 lastSeen = now, isAdmin = None, isBanned = None\<rparr>
              of Inl e \<Rightarrow> (validation_or_internal e, d)
               | Inr (newUser, d') \<Rightarrow> ((201, JUser newUser), d'))))"

text \<open>
  \<^verbatim>\<open>admin?.isAdmin\<close> for the user \<^verbatim>\<open>findUserById(adminId)\<close> returns; a missing
  \<^verbatim>\<open>adminId\<close> finds no user.
\<close>

definition verify_admin :: "db \<Rightarrow> string option \<Rightarrow> bool" where
  "verify_admin d aid =
     (case UserModel_findUserById d (str aid) of
        None \<Rightarrow> False
      | Some admin \<Rightarrow> isAdmin admin = Some True)"

definition UserController_getUsers :: "db \<Rightarrow> string option \<Rightarrow> response" where
  "UserController_getUsers d aid =
     (if truthy aid \<and> verify_admin d aid then (200, JUsers (UserModel_getAllUsersForAdmin d))
      else (200, JUsers (filter (\<lambda>u. isAdmin u \<noteq> Some True) (UserModel_getAllUsers d))))"

definition UserController_updateUser ::
  "db \<Rightarrow> int \<Rightarrow> string \<Rightarrow> string option \<Rightarrow> string option \<Rightarrow> string option \<Rightarrow> response \<times> db" where
  "UserController_updateUser d now ident uname av st =
     (if falsy uname \<and> falsy av \<and> falsy st
      then ((400, JError ''Missing update fields''), d)
      else
        (case UserModel_updateUser d ident
           (\<lambda>u. u\<lparr>username := (if truthy uname then str uname else username u),
                  avatar := (if truthy av then str av else avatar u),
                  user_status := (if truthy st then str st else user_status u),
                  lastSeen := now\<rparr>)
         of Inl e \<Rightarrow> (validation_or_internal e, d)
          | Inr (None, d') \<Rightarrow> ((404, JError ''User not found''), d')
          | Inr (Some updatedUser, d') \<Rightarrow> ((200, JUser updatedUser), d')))"

definition UserController_deleteUser :: "db \<Rightarrow> string \<Rightarrow> response \<times> db" where
  "UserController_deleteUser d ident =
     (case UserModel_deleteUser d ident of
        Inl e \<Rightarrow> ((500, JError ''Internal server error''), d)
      | Inr (False, d') \<Rightarrow> ((404, JError ''User not found''), d')
      | Inr (True, d') \<Rightarrow> ((200, JInfo ''User deleted successfully''), d'))"

text \<open>
  \<^verbatim>\<open>banUser\<close>: the admin check, the ban, and after a successful ban the cascade, which
  deletes the messages from and to the user and takes the user out of every group.
\<close>

definition UserController_banUser :: "db \<Rightarrow> string \<Rightarrow> string option \<Rightarrow> response \<times> db" where
  "UserController_banUser d ident aid =
     (if \<not> verify_admin d aid then ((403, JError ''Unauthorized''), d)
      else
        (case UserModel_banUser d ident of
           Inl e \<Rightarrow> ((500, JError ''Internal server error''), d)
         | Inr (False, d') \<Rightarrow> ((404, JError ''User not found''), d')
         | Inr (True, d') \<Rightarrow>
             ((200, JInfo ''User banned and all data removed successfully''),
              snd (GroupModel_removeUserFromAllGroups
                     (snd (MessageModel_deleteAllMessagesFromUser d' ident)) ident))))"

definition UserController_permanentlyDeleteUser ::
  "db \<Rightarrow> string \<Rightarrow> string option \<Rightarrow> response \<times> db" where
  "UserController_permanentlyDeleteUser d ident aid =
     (if \<not> verify_admin d aid then ((403, JError ''Unauthorized''), d)
      else
        (case UserModel_permanentlyDeleteUser d ident of
           Inl e \<Rightarrow> ((500, JError ''Internal server error''), d)
         | Inr (False, d') \<Rightarrow> ((404, JError ''User not found''), d')
         | Inr (True, d') \<Rightarrow> ((200, JInfo ''User permanently deleted''), d')))"

definition UserController_cleanupTestData :: "db \<Rightarrow> string option \<Rightarrow> response \<times> db" where
  "UserController_cleanupTestData d aid =
     (if \<not> verify_admin d aid then ((403, JError ''Unauthorized''), d)
      else
        (case UserModel_deleteAllUsersExceptAdmin d of (usersDeleted, d1) \<Rightarrow>
         case MessageModel_deleteAllMessages d1 of (messagesDeleted, d2) \<Rightarrow>
         case GroupModel_deleteAllGroups d2 of (groupsDeleted, d3) \<Rightarrow>
           ((200, JCounts usersDeleted messagesDeleted groupsDeleted), d3)))"

section \<open>The backend: \<^verbatim>\<open>GroupController\<close> (controllers/groupController.ts)\<close>

text \<open>
  The fields \<^verbatim>\<open>createGroup\<close> reads from the body of \<^verbatim>\<open>POST /groups\<close>;
  \<open>req_memberIds\<close> is \<open>None\<close> when the field is missing or is no array.
\<close>

record group_request =
  req_name :: "string option"
  req_avatar :: "string option"
  req_adminId :: "string option"
  req_memberIds :: "string list option"

definition GroupController_createGroup ::
  "db \<Rightarrow> string \<Rightarrow> int \<Rightarrow> group_request \<Rightarrow> response \<times> db" where
  "GroupController_createGroup d oid now req =
     (case req_memberIds req of
        None \<Rightarrow> ((400, JError ''Missing required fields''), d)
      | Some members \<Rightarrow>
          if falsy (req_name req) \<or> falsy (req_adminId req)
          then ((400, JError ''Missing required fields''), d)
          else if length members < 2
          then ((400, JError ''Group must have at least 2 members''), d)
          else
            (case GroupModel_createGroup d oid
               \<lparr>group_id = [],
                group_name = str (req_name req),
                group_avatar = Some (if truthy (req_avatar req) then str (req_avatar req)
                                     else ''https://api.dicebear.com/7.x/initials/svg?seed=''
                                          @ str (req_name req)),
                adminId = str (req_adminId req),
                memberIds = members,
                createdAt = now\<rparr>
             of Inl e \<Rightarrow> ((500, JError ''Internal server error''), d)
              | Inr (newGroup, d') \<Rightarrow> ((201, JGroup newGroup), d')))"

definition GroupController_getUserGroups :: "db \<Rightarrow> string option \<Rightarrow> response" where
  "GroupController_getUserGroups d userId =
     (if falsy userId then (400, JError ''Invalid userId'')
      else (200, JGroups (GroupModel_getGroupsForUser d (str userId))))"

text \<open>
  \<^verbatim>\<open>deleteGroup\<close>: the requester must be the admin of the group or an admin user; the
  group goes, then the messages that carry its identifier.
\<close>

definition GroupController_deleteGroup :: "db \<Rightarrow> string \<Rightarrow> string option \<Rightarrow> response \<times> db" where
  "GroupController_deleteGroup d ident userId =
     (if falsy userId then ((400, JError ''UserId required for verification''), d)
      else
        (case GroupModel_getGroup d ident of
           None \<Rightarrow> ((404, JError ''Group not found''), d)
         | Some g \<Rightarrow>
             if adminId g \<noteq> str userId \<and> \<not> verify_admin d userId
             then ((403, JError ''Not authorized to delete this group''), d)
             else
               (case GroupModel_deleteGroup d ident of
                  Inl e \<Rightarrow> ((500, JError ''Internal server error''), d)
                | Inr (deleted, d') \<Rightarrow>
                    ((200, JInfo ''Group and all messages deleted''),
                     snd (MessageModel_deleteAllMessagesInGroup d' ident)))))"

definition GroupController_getAllGroups :: "db \<Rightarrow> string option \<Rightarrow> response" where
  "GroupController_getAllGroups d aid =
     (if \<not> verify_admin d aid then (403, JError ''Unauthorized'')
      else (200, JGroups (GroupModel_getAllGroups d)))"

definition GroupController_addMember ::
  "db \<Rightarrow> string \<Rightarrow> string option \<Rightarrow> string option \<Rightarrow> response \<times> db" where
  "GroupController_addMember d gid userId aid =
     (if falsy userId \<or> falsy aid then ((400, JError ''userId and adminId required''), d)
      else
        (case GroupModel_getGroup d gid of
           None \<Rightarrow> ((404, JError ''Group not found''), d)
         | Some g \<Rightarrow>
             if adminId g \<noteq> str aid
             then ((403, JError ''Only group admin can add members''), d)
             else
               (case GroupModel_addMemberToGroup d gid (str userId) of
                  Inl e \<Rightarrow> ((500, JError ''Internal server error''), d)
                | Inr (False, d') \<Rightarrow> ((400, JError ''User already in group or failed to add''), d')
                | Inr (True, d') \<Rightarrow> ((200, JInfo ''Member added successfully''), d'))))"

text \<open>\<^verbatim>\<open>removeMember\<close>, with its guard against removing the admin of the group.\<close>

definition GroupController_removeMember ::
  "db \<Rightarrow> string \<Rightarrow> string option \<Rightarrow> string option \<Rightarrow> response \<times> db" where
  "GroupController_removeMember d gid userId aid =
     (if falsy userId \<or> falsy aid then ((400, JError ''userId and adminId required''), d)
      else
        (case GroupModel_getGroup d gid of
           None \<Rightarrow> ((404, JError ''Group not found''), d)
         | Some g \<Rightarrow>
             if adminId g \<noteq> str aid
             then ((403, JError ''Only group admin can remove members''), d)
             else if str userId = adminId g
             then ((400, JError ''Cannot remove group admin''), d)
             else
               (case GroupModel_removeMemberFromGroup d gid (str userId) of
                  Inl e \<Rightarrow> ((500, JError ''Internal server error''), d)
                | Inr (False, d') \<Rightarrow> ((400, JError ''Failed to remove member''), d')
                | Inr (True, d') \<Rightarrow> ((200, JInfo ''Member removed successfully''), d'))))"

section \<open>The backend: the routes (routes/api.ts)\<close>

text \<open>
  The requests the router passes to the controllers, each with the path parameter, query
  parameters or body fields its handler reads.
\<close>

datatype api_request =
    POST_users register_request
  | GET_users "string option"
  | PUT_users string "string option" "string option" "string option"
  | DELETE_users string
  | POST_users_ban string "string option"
  | DELETE_users_permanent string "string option"
  | POST_users_cleanup "string option"
  | POST_messages message_request
  | GET_messages "string option" "string option" "string option"
  | PUT_messages string "string option"
  | PATCH_messages string "string option" "string option"
  | DELETE_messages string "string option"
  | POST_groups group_request
  | GET_groups "string option"
  | GET_groups_all "string option"
  | DELETE_groups string "string option"
  | POST_groups_members string "string option" "string option"
  | DELETE_groups_members string "string option" "string option"

fun serve :: "db \<Rightarrow> string \<Rightarrow> int \<Rightarrow> api_request \<Rightarrow> response \<times> db" where
  "serve d oid now (POST_users req) = UserController_registerUser d oid now req"
| "serve d oid now (GET_users aid) = (UserController_getUsers d aid, d)"
| "serve d oid now (PUT_users ident uname av st) = UserController_updateUser d now ident uname av st"
| "serve d oid now (DELETE_users ident) = UserController_deleteUser d ident"
| "serve d oid now (POST_users_ban ident aid) = UserController_banUser d ident aid"
| "serve d oid now (DELETE_users_permanent ident aid) = UserController_permanentlyDeleteUser d ident aid"
| "serve d oid now (POST_users_cleanup aid) = UserController_cleanupTestData d aid"
| "serve d oid now (POST_messages req) = MessageController_sendMessage d oid req"
| "serve d oid now (GET_messages u1 u2 gid) = (MessageController_getMessages d u1 u2 gid, d)"
| "serve d oid now (PUT_messages ident st) = MessageController_updateMessageStatus d ident st"
| "serve d oid now (PATCH_messages ident txt userId) = MessageController_editMessage d ident txt userId"
| "serve d oid now (DELETE_messages ident userId) = MessageController_deleteMessage d ident userId"
| "serve d oid now (POST_groups req) = GroupController_createGroup d oid now req"
| "serve d oid now (GET_groups userId) = (GroupController_getUserGroups d userId, d)"
| "serve d oid now (GET_groups_all aid) = (GroupController_getAllGroups d aid, d)"
| "serve d oid now (DELETE_groups ident userId) = GroupController_deleteGroup d ident userId"
| "serve d oid now (POST_groups_members gid userId aid) = GroupController_addMember d gid userId aid"
| "serve d oid now (DELETE_groups_members gid userId aid) = GroupController_removeMember d gid userId aid"

text \<open>A run of the backend: the requests in order, each with its \<open>oid\<close> and \<open>now\<close>.\<close>

fun serve_all :: "db \<Rightarrow> (string \<times> int \<times> api_request) list \<Rightarrow> db" where
  "serve_all d [] = d"
| "serve_all d ((oid, now, r) # rs) = serve_all (snd (serve d oid now r)) rs"

section \<open>The client against the backend\<close>

text \<open>
  The body \<^verbatim>\<open>ApiService.registerUser\<close> posts: the data it was given, the avatar, and
  the fixed status (the \<^verbatim>\<open>lastSeen\<close> it adds is not read by the backend).
\<close>

definition register_payload :: "register_data \<Rightarrow> register_request" where
  "register_payload userData =
     \<lparr>reg_username = Some (rd_username userData),
      reg_email = Some (rd_email userData),
      reg_avatar = Some (if truthy (rd_avatar userData) then str (rd_avatar userData)
                         else getGravatar (rd_email userData)),
      reg_status = Some ''Hey there! I am using Connect.''\<rparr>"

text \<open>
  What \<^verbatim>\<open>fetch\<close> yields when the backend answers \<^verbatim>\<open>POST /users\<close>: the status, and
  the user of the body.
\<close>

definition user_reply :: "response \<Rightarrow> user fetch_outcome" where
  "user_reply r = Replied (fst r) (case snd r of JUser u \<Rightarrow> Some u | _ \<Rightarrow> None)"

section \<open>Notions of the specification\<close>

text \<open>The order of the statuses, \<^verbatim>\<open>sent\<close> before \<^verbatim>\<open>delivered\<close> before \<^verbatim>\<open>read\<close>.\<close>

definition status_rank :: "string \<Rightarrow> nat" where
  "status_rank st = (if st = ''read'' then 2 else if st = ''delivered'' then 1 else 0)"

text \<open>The status values \<^verbatim>\<open>PUT /messages/:id\<close> accepts.\<close>

definition valid_status :: "string \<Rightarrow> bool" where
  "valid_status s = (s = ''sent'' \<or> s = ''delivered'' \<or> s = ''read'')"



section \<open>Example data\<close>

definition alice :: string where "alice = ''65f0000000000000000000a1''"
definition bob :: string where "bob = ''65f0000000000000000000b2''"
definition carol :: string where "carol = ''65f0000000000000000000c3''"

definition msg1 :: message where
  "msg1 = \<lparr>msg_id = ''65f000000000000000000001'', senderId = alice, receiverId = bob,
     msg_text = Some ''hi'', imageUrl = None, audioUrl = None, fileUrl = None,
     fileName = None, fileType = None, msg_type = ''text'', timestamp = 1000,
     msg_status = ''read'', groupId = None\<rparr>"

text \<open>An empty store and one that holds \<open>msg1\<close>, both with the validator on the messages.\<close>

definition db0 :: db where
  "db0 = \<lparr>users = [], messages = [], groups = [],
     users_validator = (\<lambda>u. True), messages_validator = messageSchema\<rparr>"

definition db1 :: db where
  "db1 = db0\<lparr>messages := [msg1]\<rparr>"

definition grp :: string where "grp = ''65f0000000000000000000e5''"
definition oid1 :: string where "oid1 = ''65f000000000000000000011''"
definition oid2 :: string where "oid2 = ''65f000000000000000000012''"

text \<open>
  A text message from Alice to Bob, the same message with a group identifier beside
  the receiver, and the same message with an image URL beside its text.
\<close>

definition req_direct :: message_request where
  "req_direct = \<lparr>req_senderId = Some alice, req_receiverId = Some bob, req_text = Some ''hello'',
     req_imageUrl = None, req_audioUrl = None, req_fileUrl = None, req_fileName = None,
     req_fileType = None, req_type = Some ''text'', req_timestamp = Some 1700000000000,
     req_status = Some ''sent'', req_groupId = None\<rparr>"

definition req_group :: message_request where
  "req_group = req_direct\<lparr>req_groupId := Some grp\<rparr>"


text \<open>The document those requests store, by identifier, receiver and group.\<close>

definition stored :: "string \<Rightarrow> string \<Rightarrow> string option \<Rightarrow> message" where
  "stored i r g = \<lparr>msg_id = i, senderId = alice, receiverId = r,
     msg_text = Some ''hello'', imageUrl = None, audioUrl = None, fileUrl = None,
     fileName = None, fileType = None, msg_type = ''text'', timestamp = 1700000000000,
     msg_status = ''sent'', groupId = g\<rparr>"




text \<open>The admin user, Alice as a user, and a group of three that Alice administers.\<close>

definition root :: string where "root = ''65f0000000000000000000d4''"

definition root_user :: user where
  "root_user = \<lparr>user_id = root, username = ''Admin'', email = ''admin0909@gmail.com'',
     avatar = ''https://example.org/a.png'', user_status = ''Hey there! I am using Connect.'',
     lastSeen = 1000, isAdmin = Some True, isBanned = None\<rparr>"

definition alice_user :: user where
  "alice_user = \<lparr>user_id = alice, username = ''Alice'', email = ''alice@example.org'',
     avatar = ''https://example.org/b.png'', user_status = ''Hey there! I am using Connect.'',
     lastSeen = 1000, isAdmin = Some False, isBanned = None\<rparr>"

definition trio :: chat_group where
  "trio = \<lparr>group_id = grp, group_name = ''Trio'', group_avatar = None, adminId = alice,
     memberIds = [alice, bob, carol], createdAt = 1000\<rparr>"


definition db_banned :: db where
  "db_banned = db0\<lparr>users := [root_user, alice_user\<lparr>isBanned := Some True\<rparr>],
     messages := [msg1], groups := [trio]\<rparr>"

text \<open>The login of the specification's scenario.\<close>

definition ana :: register_data where
  "ana = \<lparr>rd_username = ''Ana'', rd_email = ''ana@x.com'', rd_avatar = None\<rparr>"

text \<open>The document the backend stores for that login on an empty store.\<close>

definition ana_doc :: user where
  "ana_doc = \<lparr>user_id = oid1, username = ''Ana'', email = ''ana@x.com'',
     avatar = getGravatar ''ana@x.com'', user_status = ''Hey there! I am using Connect.'',
     lastSeen = 1000, isAdmin = Some False, isBanned = None\<rparr>"

section \<open>Properties of the client\<close>

lemma request_failure:
  "fst (request c NetworkError) = None"
  "fst (request c Aborted) = None"
  "\<not> response_ok st \<Longrightarrow> fst (request c (Replied st body)) = None"
  by (simp_all add: request_def request_try_def)

text \<open>
  C1. The operations without a local fallback should return a failure signal when the
  remote call fails. With the network down (\<^verbatim>\<open>fetch\<close> rejects), \<^verbatim>\<open>request\<close> returns
  \<^verbatim>\<open>null\<close>, and \<^verbatim>\<open>createGroup\<close> and \<^verbatim>\<open>cleanupTestData\<close> return that \<^verbatim>\<open>null\<close>; but
  \<^verbatim>\<open>banUser\<close>, \<^verbatim>\<open>deleteUser\<close>, \<^verbatim>\<open>deleteGroup\<close>, \<^verbatim>\<open>addMemberToGroup\<close>,
  \<^verbatim>\<open>removeMemberFromGroup\<close>, \<^verbatim>\<open>editMessage\<close> and \<^verbatim>\<open>deleteMessage\<close> return \<^verbatim>\<open>true\<close>,
  the success value, also on a 500 answer.
\<close>

theorem gateway_true_on_failed_call:
  "fst (request client0 (NetworkError :: unit fetch_outcome)) = None
   \<and> fst (ApiService_banUser client0 NetworkError ''u1'' ''a1'') = True
   \<and> fst (ApiService_deleteUser client0 NetworkError ''u1'') = True
   \<and> fst (ApiService_deleteGroup client0 (Replied 500 None) ''g1'' ''u1'') = True
   \<and> fst (ApiService_addMemberToGroup client0 Aborted ''g1'' ''u1'' ''a1'') = True
   \<and> fst (ApiService_removeMemberFromGroup client0 (Replied 403 None) ''g1'' ''u1'' ''a1'') = True
   \<and> fst (ApiService_editMessage client0 NetworkError ''m1'' ''hello'' ''u1'') = True
   \<and> fst (ApiService_deleteMessage client0 NetworkError ''m1'' ''u1'') = True
   \<and> fst (ApiService_createGroup client0 NetworkError g) = None
   \<and> fst (ApiService_cleanupTestData client0 NetworkError ''a1'') = None"
  by (simp add: request_def request_try_def response_ok_def client0_def ApiService_banUser_def
      ApiService_deleteUser_def ApiService_deleteGroup_def ApiService_addMemberToGroup_def ApiService_removeMemberFromGroup_def
      ApiService_editMessage_def ApiService_deleteMessage_def ApiService_createGroup_def ApiService_cleanupTestData_def
      split: prod.splits)

text \<open>
  C7. The group list operations should return an empty array when the remote is
  unreachable. \<^verbatim>\<open>getUserGroups\<close> and \<^verbatim>\<open>getGroupMessages\<close> return the \<^verbatim>\<open>null\<close> of
  \<^verbatim>\<open>request\<close>; only \<^verbatim>\<open>getAllGroupsForAdmin\<close> turns it into \<^verbatim>\<open>[]\<close>.
\<close>

theorem group_lists_null_when_unreachable:
  "fst (ApiService_getUserGroups client0 NetworkError ''u1'') = None
   \<and> fst (ApiService_getGroupMessages client0 NetworkError ''g1'') = None
   \<and> fst (ApiService_getAllGroupsForAdmin client0 NetworkError ''a1'') = []"
  by (simp add: request_def request_try_def client0_def ApiService_getUserGroups_def
      ApiService_getGroupMessages_def ApiService_getAllGroupsForAdmin_def)

section \<open>Properties of the store\<close>

lemma find_update_first:
  assumes "\<And>x. k (f x) = k x"
  shows "find (\<lambda>x. k x = i) (update_first (\<lambda>x. k x = i) f xs)
         = map_option f (find (\<lambda>x. k x = i) xs)"
  using assms by (induction xs) auto

lemma update_first_id:
  "find p xs = Some x \<Longrightarrow> f x = x \<Longrightarrow> update_first p f xs = xs"
  by (induction xs) (auto split: if_splits)

lemma newObjectId_msg1:
  "newObjectId ''65f000000000000000000001'' = Inr ''65f000000000000000000001''"
  by (simp add: newObjectId_def hexDigit_def toLowerHex_def)

section \<open>Properties of the message handlers\<close>

text \<open>
  C2. \<^verbatim>\<open>PATCH /messages/:id\<close> by a user who is not the sender should answer 403 and
  leave the message as it is. The handler writes the text before it compares the sender:
  Bob's edit of Alice's message \<open>msg1\<close> is answered 403, and the stored text is Bob's.
\<close>

theorem edit_by_non_sender_is_applied:
  "MessageController_editMessage db1 ''65f000000000000000000001'' (Some ''hacked'') (Some bob)
     = ((403, JError ''Unauthorized''), db1\<lparr>messages := [msg1\<lparr>msg_text := Some ''hacked''\<rparr>]\<rparr>)
   \<and> senderId msg1 \<noteq> bob \<and> msg_text msg1 = Some ''hi''"
  by (simp add: MessageController_editMessage_def MessageModel_updateMessageText_def
      messages_findOneAndUpdate_def newObjectId_msg1 db1_def db0_def msg1_def alice_def bob_def
      falsy_def str_def messageSchema_def)

lemma valid_status_not_falsy: "valid_status s \<Longrightarrow> falsy (Some s) = False"
  by (auto simp: valid_status_def falsy_def)

lemma put_status_step:
  assumes "newObjectId ident = Inr oid"
    and "find (\<lambda>m. msg_id m = oid) (messages d) = Some m"
    and "valid_status s"
    and "messages_validator d (m\<lparr>msg_status := s\<rparr>)"
  shows "MessageController_updateMessageStatus d ident (Some s) =
     ((200, JMessage (m\<lparr>msg_status := s\<rparr>)),
      d\<lparr>messages := update_first (\<lambda>m. msg_id m = oid) (\<lambda>m. m\<lparr>msg_status := s\<rparr>) (messages d)\<rparr>)"
proof (cases "m\<lparr>msg_status := s\<rparr> = m")
  case True
  then have "update_first (\<lambda>m. msg_id m = oid) (\<lambda>m. m\<lparr>msg_status := s\<rparr>) (messages d) = messages d"
    using assms(2) by (rule update_first_id[rotated])
  then show ?thesis
    using True assms(1,2) assms(3)[unfolded valid_status_def]
    by (simp add: MessageController_updateMessageStatus_def MessageModel_updateMessageStatus_def
        messages_findOneAndUpdate_def str_def valid_status_not_falsy[OF assms(3)])
next
  case False
  then show ?thesis
    using assms(1,2,4) assms(3)[unfolded valid_status_def]
    by (simp add: MessageController_updateMessageStatus_def MessageModel_updateMessageStatus_def
        messages_findOneAndUpdate_def str_def valid_status_not_falsy[OF assms(3)])
qed

lemma put_status_validator:
  "messages_validator (snd (MessageController_updateMessageStatus d ident st)) = messages_validator d"
  by (auto simp: MessageController_updateMessageStatus_def MessageModel_updateMessageStatus_def
      messages_findOneAndUpdate_def split: sum.splits option.splits)

lemma put_status_run:
  assumes "newObjectId ident = Inr oid"
    and "find (\<lambda>m. msg_id m = oid) (messages d) = Some m"
    and "list_all valid_status ss" and "ss \<noteq> []"
    and "\<And>s. valid_status s \<Longrightarrow> messages_validator d (m\<lparr>msg_status := s\<rparr>)"
  shows "find (\<lambda>m. msg_id m = oid)
           (messages (serve_all d (map (\<lambda>s. (x, t, PUT_messages ident (Some s))) ss)))
         = Some (m\<lparr>msg_status := last ss\<rparr>)"
  using assms(2-)
proof (induction ss arbitrary: d m)
  case Nil
  then show ?case by simp
next
  case (Cons s ss)
  let ?d' = "snd (MessageController_updateMessageStatus d ident (Some s))"
  let ?m' = "m\<lparr>msg_status := s\<rparr>"
  from Cons.prems have vs: "valid_status s" by simp
  have step: "MessageController_updateMessageStatus d ident (Some s) =
     ((200, JMessage ?m'),
      d\<lparr>messages := update_first (\<lambda>m. msg_id m = oid) (\<lambda>m. m\<lparr>msg_status := s\<rparr>) (messages d)\<rparr>)"
    using assms(1) Cons.prems(1) vs Cons.prems(4)[OF vs] by (rule put_status_step)
  have found: "find (\<lambda>m. msg_id m = oid) (messages ?d') = Some ?m'"
    using Cons.prems(1) by (simp add: step find_update_first[where k = msg_id])
  show ?case
  proof (cases "ss = []")
    case True
    then show ?thesis using found by simp
  next
    case False
    have val: "\<And>s'. valid_status s' \<Longrightarrow> messages_validator ?d' (?m'\<lparr>msg_status := s'\<rparr>)"
      using Cons.prems(4) by (simp add: put_status_validator)
    have "find (\<lambda>m. msg_id m = oid)
           (messages (serve_all ?d' (map (\<lambda>s. (x, t, PUT_messages ident (Some s))) ss)))
         = Some (?m'\<lparr>msg_status := last ss\<rparr>)"
      using found Cons.prems(2) False val by (intro Cons.IH) simp_all
    then show ?thesis using False by simp
  qed
qed

text \<open>
  C8, as the claim states it: the status of a message never goes back. It does:
  \<open>msg1\<close> is \<^verbatim>\<open>read\<close>, and \<^verbatim>\<open>PUT /messages/:id\<close> with \<^verbatim>\<open>sent\<close> is answered 200 and
  stores \<^verbatim>\<open>sent\<close>.
\<close>

theorem status_goes_back:
  "msg_status msg1 = ''read''
   \<and> MessageController_updateMessageStatus db1 ''65f000000000000000000001'' (Some ''sent'')
       = ((200, JMessage (msg1\<lparr>msg_status := ''sent''\<rparr>)),
          db1\<lparr>messages := [msg1\<lparr>msg_status := ''sent''\<rparr>]\<rparr>)
   \<and> status_rank ''sent'' < status_rank (msg_status msg1)"
  by (simp add: MessageController_updateMessageStatus_def MessageModel_updateMessageStatus_def
      messages_findOneAndUpdate_def newObjectId_msg1 db1_def db0_def msg1_def alice_def bob_def
      falsy_def str_def messageSchema_def status_rank_def)

text \<open>
  C8, amended: \<^verbatim>\<open>PUT /messages/:id\<close> with a valid status on a stored message is answered
  200 with the message carrying that status, whatever its status was; after a run of such
  updates the stored status is the last value sent. (The validator of the collection, if
  one is installed, accepts the message with each valid status.)
\<close>

theorem status_is_last_value_sent:
  assumes "newObjectId ident = Inr oid"
    and "find (\<lambda>m. msg_id m = oid) (messages d) = Some m"
    and "list_all valid_status ss" and "ss \<noteq> []"
    and "\<forall>s. valid_status s \<longrightarrow> messages_validator d (m\<lparr>msg_status := s\<rparr>)"
  shows "fst (MessageController_updateMessageStatus d ident (Some (hd ss)))
           = (200, JMessage (m\<lparr>msg_status := hd ss\<rparr>))
         \<and> find (\<lambda>m. msg_id m = oid)
             (messages (serve_all d (map (\<lambda>s. (x, t, PUT_messages ident (Some s))) ss)))
           = Some (m\<lparr>msg_status := last ss\<rparr>)"
proof
  from assms(3,4) have "valid_status (hd ss)" by (cases ss) simp_all
  with assms(1,2,5) show "fst (MessageController_updateMessageStatus d ident (Some (hd ss)))
           = (200, JMessage (m\<lparr>msg_status := hd ss\<rparr>))"
    by (simp add: put_status_step)
  from assms show "find (\<lambda>m. msg_id m = oid)
             (messages (serve_all d (map (\<lambda>s. (x, t, PUT_messages ident (Some s))) ss)))
           = Some (m\<lparr>msg_status := last ss\<rparr>)"
    by (intro put_status_run) simp_all
qed

theorem status_is_last_value_sent_witness:
  "find (\<lambda>m. msg_id m = ''65f000000000000000000001'')
     (messages (serve_all db1
        (map (\<lambda>s. ([], 0, PUT_messages ''65f000000000000000000001'' (Some s)))
           [''delivered'', ''sent''])))
   = Some (msg1\<lparr>msg_status := ''sent''\<rparr>)"
proof -
  have 1: "find (\<lambda>m. msg_id m = ''65f000000000000000000001'') (messages db1) = Some msg1"
    by (simp add: db1_def msg1_def)
  have 2: "list_all valid_status [''delivered'', ''sent'']"
    by (simp add: valid_status_def)
  have 3: "\<forall>s. valid_status s \<longrightarrow> messages_validator db1 (msg1\<lparr>msg_status := s\<rparr>)"
    by (auto simp: valid_status_def db1_def db0_def messageSchema_def msg1_def)
  show ?thesis
    using status_is_last_value_sent[OF newObjectId_msg1 1 2 _ 3, of "[]" 0] by simp
qed

lemma ids_nonempty: "alice \<noteq> []" "bob \<noteq> []" "grp \<noteq> []"
  by (simp_all add: alice_def bob_def grp_def)

lemma ids_distinct: "bob \<noteq> grp" "grp \<noteq> bob" "oid1 \<noteq> oid2"
  by (simp_all add: bob_def grp_def oid1_def oid2_def)

lemma newObjectId_alice: "newObjectId alice = Inr alice"
  by (simp add: newObjectId_def hexDigit_def toLowerHex_def alice_def)

lemma alice_not_banned: "users d = [] \<Longrightarrow> UserModel_isUserBanned d alice = False"
  by (simp add: UserModel_isUserBanned_def newObjectId_alice)

text \<open>
  C5. Two \<^verbatim>\<open>POST /messages\<close> with the same sender, receiver and timestamp should store
  one message, the second being answered 200. For a direct message they do. For a
  message that names a group the duplicate check looks for the \<^verbatim>\<open>receiverId\<close> of the
  body while the document stored has the \<^verbatim>\<open>groupId\<close> as its receiver: the second call
  is answered 201 and the store holds two documents with the same triple.
\<close>

theorem group_message_stored_twice:
  "MessageController_sendMessage db0 oid1 req_group
     = ((201, JMessage (stored oid1 grp (Some grp))), db0\<lparr>messages := [stored oid1 grp (Some grp)]\<rparr>)
   \<and> MessageController_sendMessage (db0\<lparr>messages := [stored oid1 grp (Some grp)]\<rparr>) oid2 req_group
     = ((201, JMessage (stored oid2 grp (Some grp))),
        db0\<lparr>messages := [stored oid1 grp (Some grp), stored oid2 grp (Some grp)]\<rparr>)
   \<and> MessageController_sendMessage db0 oid1 req_direct
     = ((201, JMessage (stored oid1 bob None)), db0\<lparr>messages := [stored oid1 bob None]\<rparr>)
   \<and> MessageController_sendMessage (db0\<lparr>messages := [stored oid1 bob None]\<rparr>) oid2 req_direct
     = ((200, JInfo ''Duplicate message detected, skipping creation''),
        db0\<lparr>messages := [stored oid1 bob None]\<rparr>)"
  by (simp add: MessageController_sendMessage_def MessageModel_checkDuplicateMessage_def
      MessageModel_createMessage_def alice_not_banned req_group_def req_direct_def db0_def
      falsy_def truthy_def falsy_num_def str_def num_def set_if_truthy_def messageSchema_def
      Let_def ids_nonempty ids_distinct stored_def)

section \<open>The payload of the stored messages\<close>



lemma list_all_filter: "list_all P xs \<Longrightarrow> list_all P (filter q xs)"
  by (induction xs) auto
































section \<open>The history of a direct conversation\<close>









section \<open>Banning a user\<close>

lemma set_banned_again: "isBanned u = Some True \<Longrightarrow> u\<lparr>isBanned := Some True\<rparr> = u"
  by (cases u) simp

lemma ban_model_already_banned:
  assumes "newObjectId ident = Inr oid"
    and "find (\<lambda>u. user_id u = oid) (users d) = Some u"
    and "isBanned u = Some True"
  shows "UserModel_deleteUser d ident = Inr (False, d)"
    and "UserModel_banUser d ident = Inr (False, d)"
  using assms
  by (simp_all add: UserModel_deleteUser_def UserModel_banUser_def users_updateOne_def set_banned_again)

lemma newObjectId_ids:
  "newObjectId alice = Inr alice" "newObjectId root = Inr root" "newObjectId grp = Inr grp"
  by (simp_all add: newObjectId_def hexDigit_def toLowerHex_def alice_def root_def grp_def)

lemma ids_distinct2: "root \<noteq> alice" "alice \<noteq> root" "alice \<noteq> bob" "alice \<noteq> carol" "bob \<noteq> alice" "carol \<noteq> alice"
  by (simp_all add: alice_def root_def bob_def carol_def)

lemma root_is_admin: "users d = root_user # us \<Longrightarrow> verify_admin d (Some root) = True"
  by (simp add: verify_admin_def UserModel_findUserById_def newObjectId_ids str_def
      root_user_def UserModel_transformDocument_def)

text \<open>
  C10. \<^verbatim>\<open>DELETE /users/:id\<close> and \<^verbatim>\<open>POST /users/:id/ban\<close> on a user who exists and is
  already banned: the update changes nothing, its \<^verbatim>\<open>modifiedCount\<close> is 0, and the answer
  is 404 \<^verbatim>\<open>User not found\<close> with the store as it was, so on the ban route the cascade
  over messages and groups does not run. (The ban route checks the admin first and
  answers 403 to a requester who is none, also with the store as it was.)
\<close>

theorem banning_banned_user_is_404:
  assumes "newObjectId ident = Inr oid"
    and "find (\<lambda>u. user_id u = oid) (users d) = Some u"
    and "isBanned u = Some True"
  shows "UserController_deleteUser d ident = ((404, JError ''User not found''), d)
     \<and> UserController_banUser d ident aid
        = ((if verify_admin d aid then (404, JError ''User not found'')
            else (403, JError ''Unauthorized'')), d)"
  using ban_model_already_banned[OF assms]
  by (simp add: UserController_deleteUser_def UserController_banUser_def)

theorem banning_banned_user_is_404_witness:
  "UserController_deleteUser db_banned alice = ((404, JError ''User not found''), db_banned)
   \<and> UserController_banUser db_banned alice (Some root) = ((404, JError ''User not found''), db_banned)
   \<and> messages db_banned = [msg1] \<and> senderId msg1 = alice \<and> groups db_banned = [trio]"
proof -
  have 1: "find (\<lambda>u. user_id u = alice) (users db_banned) = Some (alice_user\<lparr>isBanned := Some True\<rparr>)"
    by (simp add: db_banned_def root_user_def alice_user_def ids_distinct2)
  have 2: "isBanned (alice_user\<lparr>isBanned := Some True\<rparr>) = Some True" by simp
  have 3: "verify_admin db_banned (Some root) = True"
    by (rule root_is_admin) (simp add: db_banned_def)
  show ?thesis
    using banning_banned_user_is_404[OF newObjectId_ids(1) 1 2, of "Some root"] 3
    by (simp add: db_banned_def msg1_def)
qed

section \<open>The admin of a group and its members\<close>















section \<open>Registering twice\<close>

lemma find_append1:
  "find P (xs @ [x]) = (case find P xs of Some y \<Rightarrow> Some y | None \<Rightarrow> if P x then Some x else None)"
  by (induction xs) auto

lemma find_SomeD: "find P xs = Some x \<Longrightarrow> P x \<and> x \<in> set xs"
  by (induction xs) (auto split: if_splits)

lemma find_None_iff2: "find P xs = None \<Longrightarrow> \<forall>x\<in>set xs. \<not> P x"
  by (induction xs) (auto split: if_splits)

lemma request_None:
  assumes "fst (request c out) = None"
  obtains c' where "request c out = (None, c')"
    and "connect_mock_users c' = connect_mock_users c"
proof -
  obtain r c' where r: "request c out = (r, c')" by (cases "request c out")
  have "connect_mock_users (snd (request c out)) = connect_mock_users c"
    by (simp add: request_def request_try_def Let_def split: fetch_outcome.split option.split)
  with r assms that show thesis by simp
qed

lemma register_local:
  fixes c :: client and data data' :: register_data
    and out1 out2 :: "user fetch_outcome" and rnd1 rnd2 :: string and now1 now2 :: int
  defines "p1 \<equiv> ApiService_registerUser c out1 rnd1 now1 data"
  defines "p2 \<equiv> ApiService_registerUser (snd p1) out2 rnd2 now2 data'"
  assumes e: "rd_email data' = rd_email data"
    and f1: "fst (request c out1) = None"
    and f2: "fst (request (snd p1) out2) = None"
    and ne: "list_all (\<lambda>u. user_id u \<noteq> []) (connect_mock_users c)"
  shows "email (fst p1) = rd_email data \<and> user_id (fst p1) \<noteq> []
     \<and> user_id (fst p2) = user_id (fst p1) \<and> email (fst p2) = rd_email data
     \<and> connect_mock_users (snd p2) = connect_mock_users (snd p1)
     \<and> (distinct (map email (connect_mock_users c)) \<longrightarrow>
          distinct (map email (connect_mock_users (snd p2))))"
proof -
  from f1 obtain c' where r1: "request c out1 = (None, c')"
    and s1: "connect_mock_users c' = connect_mock_users c" by (rule request_None)
  from f2 obtain c'' where r2: "request (snd p1) out2 = (None, c'')"
    and s2: "connect_mock_users c'' = connect_mock_users (snd p1)" by (rule request_None)
  let ?P = "\<lambda>u. email u = rd_email data"
  show ?thesis
  proof (cases "find ?P (connect_mock_users c)")
    case None
    define lu where "lu = \<lparr>user_id = ''u-'' @ rnd1,
                  username = rd_username data,
                  email = rd_email data,
                  avatar = (if truthy (rd_avatar data) then str (rd_avatar data)
                            else getGravatar (rd_email data)),
                  user_status = ''Hey there! I am using Connect.'',
                  lastSeen = now1, isAdmin = None, isBanned = None\<rparr>"
    have p1: "p1 = (lu, c'\<lparr>connect_mock_users := connect_mock_users c' @ [lu]\<rparr>)"
      using None by (simp add: p1_def ApiService_registerUser_def Let_def r1 s1 lu_def)
    have fnd: "find ?P (connect_mock_users (snd p1)) = Some lu"
      using None by (simp add: p1 s1 find_append1 lu_def)
    have p2: "p2 = (lu, c'')"
      using fnd by (simp add: p2_def ApiService_registerUser_def Let_def r2 s2 e)
    have d: "distinct (map email (connect_mock_users c)) \<Longrightarrow>
          distinct (map email (connect_mock_users c @ [lu]))"
      using find_None_iff2[OF None] by (auto simp: lu_def)
    show ?thesis using d by (simp add: p1 p2 s1 s2) (simp add: lu_def)
  next
    case (Some ex)
    have p1: "p1 = (ex, c')"
      using Some by (simp add: p1_def ApiService_registerUser_def Let_def r1 s1)
    have fnd: "find ?P (connect_mock_users (snd p1)) = Some ex"
      using Some by (simp add: p1 s1)
    have p2: "p2 = (ex, c'')"
      using fnd by (simp add: p2_def ApiService_registerUser_def Let_def r2 s2 e)
    from find_SomeD[OF Some] ne have "email ex = rd_email data" "user_id ex \<noteq> []"
      by (auto simp: list_all_iff)
    then show ?thesis by (simp add: p1 p2 s1 s2)
  qed
qed

lemma transformDocument_keeps:
  "user_id (UserModel_transformDocument doc) = user_id doc"
  "email (UserModel_transformDocument doc) = email doc"
  by (simp_all add: UserModel_transformDocument_def)

lemma find_email_update_first:
  assumes "\<And>x. email (f x) = email x" and "\<And>x. user_id (f x) = user_id x"
  shows "map_option user_id (find (\<lambda>u. email u = e) (update_first p f xs))
         = map_option user_id (find (\<lambda>u. email u = e) xs)"
  using assms by (induction xs) auto

lemma updateLastSeen_find_email:
  assumes "UserModel_updateLastSeen d userId now = Inr d'"
  shows "map_option user_id (find (\<lambda>u. email u = e) (users d'))
         = map_option user_id (find (\<lambda>u. email u = e) (users d))"
proof -
  from assms obtain oid n where u: "users_updateOne d oid (\<lambda>u. u\<lparr>lastSeen := now\<rparr>) = Inr (n, d')"
    by (auto simp: UserModel_updateLastSeen_def split: sum.splits)
  then have "d' = d \<or> d' = d\<lparr>users := update_first (\<lambda>u. user_id u = oid) (\<lambda>u. u\<lparr>lastSeen := now\<rparr>) (users d)\<rparr>"
    by (auto simp: users_updateOne_def split: option.splits if_splits)
  then show ?thesis by (auto simp: find_email_update_first)
qed

lemma not_ok_errors:
  "response_ok 400 = False" "response_ok 500 = False"
  "response_ok (fst (validation_or_internal e)) = False"
  "response_ok 200" "response_ok 201"
  by (simp_all add: response_ok_def validation_or_internal_def)

lemma registerUser_ok:
  assumes ok: "response_ok (fst (fst (UserController_registerUser d oid now req)))"
    and "oid \<noteq> []" and ne: "list_all (\<lambda>u. user_id u \<noteq> []) (users d)"
  shows "\<exists>u. snd (fst (UserController_registerUser d oid now req)) = JUser u
     \<and> email u = str (reg_email req) \<and> user_id u \<noteq> []
     \<and> map_option user_id (find (\<lambda>x. email x = str (reg_email req))
           (users (snd (UserController_registerUser d oid now req)))) = Some (user_id u)"
proof (cases "falsy (reg_username req) \<or> falsy (reg_email req)")
  case True
  then show ?thesis using ok by (simp add: UserController_registerUser_def not_ok_errors)
next
  case False
  let ?e = "str (reg_email req)"
  show ?thesis
  proof (cases "find (\<lambda>x. email x = ?e) (users d)")
    case (Some doc)
    then have f: "UserModel_findUserByEmail d ?e = Some (UserModel_transformDocument doc)"
      by (simp add: UserModel_findUserByEmail_def)
    from find_SomeD[OF Some] ne have doc: "email doc = ?e" "user_id doc \<noteq> []"
      by (auto simp: list_all_iff)
    show ?thesis
    proof (cases "UserModel_updateLastSeen d (user_id (UserModel_transformDocument doc)) now")
      case (Inl e)
      then show ?thesis using ok False f
        by (simp add: UserController_registerUser_def not_ok_errors)
    next
      case (Inr d')
      from updateLastSeen_find_email[OF Inr, of ?e] Some
      have "map_option user_id (find (\<lambda>x. email x = ?e) (users d')) = Some (user_id doc)"
        by simp
      then show ?thesis using False f Inr doc
        by (simp add: UserController_registerUser_def transformDocument_keeps)
    qed
  next
    case None
    then have f: "UserModel_findUserByEmail d ?e = None"
      by (simp add: UserModel_findUserByEmail_def)
    let ?data = "\<lparr>user_id = [],
                 username = str (reg_username req),
                 email = str (reg_email req),
                 avatar = (if truthy (reg_avatar req) then str (reg_avatar req)
                           else ''https://api.dicebear.com/7.x/avataaars/svg?seed=''
                                @ str (reg_email req)),
                 user_status = (if truthy (reg_status req) then str (reg_status req)
                                else ''Hey there! I am using Connect.''),
                 lastSeen = now, isAdmin = None, isBanned = None\<rparr>"
    show ?thesis
    proof (cases "UserModel_createUser d oid ?data")
      case (Inl e)
      then show ?thesis using ok False f
        by (simp add: UserController_registerUser_def not_ok_errors)
    next
      case (Inr p)
      obtain u d' where p: "p = (u, d')" by (cases p)
      from Inr p have c: "u = ?data\<lparr>user_id := oid\<rparr>"
        "\<exists>doc. users d' = users d @ [doc] \<and> email doc = ?e \<and> user_id doc = oid"
        by (auto simp: UserModel_createUser_def Let_def split: if_splits)
      then obtain doc where doc: "users d' = users d @ [doc]" "email doc = ?e" "user_id doc = oid"
        by blast
      have "find (\<lambda>x. email x = ?e) (users d') = Some doc"
        using None doc by (simp add: find_append1)
      then show ?thesis using False f Inr p c(1) doc(3) assms(2)
        by (simp add: UserController_registerUser_def)
    qed
  qed
qed

lemma client_gets_reply:
  assumes "BASE_URL c \<noteq> ''LOCAL_MOCK''" and "response_ok (fst r)" and "snd r = JUser u"
  shows "ApiService_registerUser c (user_reply r) rnd now data
         = (u, c\<lparr>isConnected := True, connectionAttempted := True\<rparr>)"
  using assms
  by (simp add: ApiService_registerUser_def user_reply_def request_def request_try_def)

lemma register_remote:
  fixes c :: client and d :: db and data data' :: register_data
    and oid1 oid2 rnd1 rnd2 :: string and now1 now2 :: int
  defines "r1 \<equiv> UserController_registerUser d oid1 now1 (register_payload data)"
  defines "p1 \<equiv> ApiService_registerUser c (user_reply (fst r1)) rnd1 now1 data"
  defines "r2 \<equiv> UserController_registerUser (snd r1) oid2 now2 (register_payload data')"
  defines "p2 \<equiv> ApiService_registerUser (snd p1) (user_reply (fst r2)) rnd2 now2 data'"
  assumes e: "rd_email data' = rd_email data"
    and url: "BASE_URL c \<noteq> ''LOCAL_MOCK''"
    and ok1: "response_ok (fst (fst r1))" and ok2: "response_ok (fst (fst r2))"
    and oid: "oid1 \<noteq> []" and ne: "list_all (\<lambda>u. user_id u \<noteq> []) (users d)"
  shows "email (fst p1) = rd_email data \<and> user_id (fst p1) \<noteq> []
     \<and> user_id (fst p2) = user_id (fst p1) \<and> email (fst p2) = rd_email data
     \<and> connect_mock_users (snd p2) = connect_mock_users c"
proof -
  have em: "str (reg_email (register_payload data)) = rd_email data"
    "str (reg_email (register_payload data')) = rd_email data"
    by (simp_all add: register_payload_def str_def e)
  from registerUser_ok[OF ok1[unfolded r1_def] oid ne] obtain u1 where
    u1: "snd (fst r1) = JUser u1" "email u1 = rd_email data" "user_id u1 \<noteq> []"
      "map_option user_id (find (\<lambda>x. email x = rd_email data) (users (snd r1))) = Some (user_id u1)"
    by (auto simp: r1_def em)
  have p1: "p1 = (u1, c\<lparr>isConnected := True, connectionAttempted := True\<rparr>)"
    unfolding p1_def using url ok1 u1(1) by (rule client_gets_reply)
  from u1(4) obtain doc where doc: "find (\<lambda>x. email x = rd_email data) (users (snd r1)) = Some doc"
    "user_id doc = user_id u1" by auto
  have f: "UserModel_findUserByEmail (snd r1) (rd_email data) = Some (UserModel_transformDocument doc)"
    using doc(1) by (simp add: UserModel_findUserByEmail_def)
  have tr: "\<not> (falsy (reg_username (register_payload data')) \<or> falsy (reg_email (register_payload data')))"
    using ok2 by (auto simp: r2_def UserController_registerUser_def not_ok_errors)
  have "\<exists>u2. snd (fst r2) = JUser u2 \<and> user_id u2 = user_id u1 \<and> email u2 = rd_email data"
  proof (cases "UserModel_updateLastSeen (snd r1) (user_id (UserModel_transformDocument doc)) now2")
    case (Inl x)
    then show ?thesis using ok2 tr f
      by (simp add: r2_def UserController_registerUser_def em not_ok_errors)
  next
    case (Inr d')
    from find_SomeD[OF doc(1)] have "email doc = rd_email data" by simp
    then show ?thesis using tr f Inr doc(2)
      by (simp add: r2_def UserController_registerUser_def em transformDocument_keeps)
  qed
  then obtain u2 where u2: "snd (fst r2) = JUser u2" "user_id u2 = user_id u1" "email u2 = rd_email data"
    by blast
  have url2: "BASE_URL (snd p1) \<noteq> ''LOCAL_MOCK''" using url by (simp add: p1)
  have p2: "p2 = (u2, (snd p1)\<lparr>isConnected := True, connectionAttempted := True\<rparr>)"
    unfolding p2_def using url2 ok2 u2(1) by (rule client_gets_reply)
  show ?thesis using u1 u2 by (simp add: p1 p2)
qed

lemma newObjectId_oid1: "newObjectId oid1 = Inr oid1"
  by (simp add: newObjectId_def hexDigit_def toLowerHex_def oid1_def)

lemma gravatar_truthy: "truthy (Some (getGravatar e))" "falsy (Some (getGravatar e)) = False"
  by (simp_all add: truthy_def falsy_def getGravatar_def)

lemma ana_remote_first:
  "UserController_registerUser db0 oid1 1000 (register_payload ana)
     = ((201, JUser (ana_doc\<lparr>isAdmin := None\<rparr>)), db0\<lparr>users := [ana_doc]\<rparr>)"
  by (simp add: UserController_registerUser_def UserModel_findUserByEmail_def
      UserModel_createUser_def register_payload_def ana_def db0_def falsy_def truthy_def
      str_def Let_def ana_doc_def getGravatar_def)

lemma ana_remote_second:
  "fst (UserController_registerUser (db0\<lparr>users := [ana_doc]\<rparr>) oid2 2000 (register_payload ana))
     = (200, JUser ana_doc)"
  by (simp add: UserController_registerUser_def UserModel_findUserByEmail_def
      UserModel_updateLastSeen_def users_updateOne_def newObjectId_oid1
      UserModel_transformDocument_def register_payload_def ana_def db0_def falsy_def
      str_def ana_doc_def)

text \<open>
  C4. \<^verbatim>\<open>registerUser\<close> returns a user with the email it was given and a non-empty
  identifier, and a second call with the same email returns the same identifier. When
  the local fallback answers both calls (the request fails; the identifiers in the local
  store are non-empty, as those it generates are), the second call leaves the local store
  as the first left it, with no second record for the email. When the backend answers
  both calls (its responses are 2xx, the identifier it generates is non-empty as are
  those of the stored users), the client returns its users and writes no local record.
\<close>

theorem register_twice_same_id:
  fixes c :: client and d :: db and data data' :: register_data
    and out1 out2 :: "user fetch_outcome"
    and oid1 oid2 rnd1 rnd2 :: string and now1 now2 :: int
  defines "l1 \<equiv> ApiService_registerUser c out1 rnd1 now1 data"
  defines "l2 \<equiv> ApiService_registerUser (snd l1) out2 rnd2 now2 data'"
  defines "r1 \<equiv> UserController_registerUser d oid1 now1 (register_payload data)"
  defines "p1 \<equiv> ApiService_registerUser c (user_reply (fst r1)) rnd1 now1 data"
  defines "r2 \<equiv> UserController_registerUser (snd r1) oid2 now2 (register_payload data')"
  defines "p2 \<equiv> ApiService_registerUser (snd p1) (user_reply (fst r2)) rnd2 now2 data'"
  assumes "rd_email data' = rd_email data"
  shows "(fst (request c out1) = None \<and> fst (request (snd l1) out2) = None
          \<and> list_all (\<lambda>u. user_id u \<noteq> []) (connect_mock_users c) \<longrightarrow>
            email (fst l1) = rd_email data \<and> user_id (fst l1) \<noteq> []
            \<and> user_id (fst l2) = user_id (fst l1) \<and> email (fst l2) = rd_email data
            \<and> connect_mock_users (snd l2) = connect_mock_users (snd l1)
            \<and> (distinct (map email (connect_mock_users c)) \<longrightarrow>
                 distinct (map email (connect_mock_users (snd l2)))))
       \<and> (BASE_URL c \<noteq> ''LOCAL_MOCK''
          \<and> response_ok (fst (fst r1)) \<and> response_ok (fst (fst r2))
          \<and> oid1 \<noteq> [] \<and> list_all (\<lambda>u. user_id u \<noteq> []) (users d) \<longrightarrow>
            email (fst p1) = rd_email data \<and> user_id (fst p1) \<noteq> []
            \<and> user_id (fst p2) = user_id (fst p1) \<and> email (fst p2) = rd_email data
            \<and> connect_mock_users (snd p2) = connect_mock_users c)"
proof -
  have loc: "email (fst l1) = rd_email data \<and> user_id (fst l1) \<noteq> []
            \<and> user_id (fst l2) = user_id (fst l1) \<and> email (fst l2) = rd_email data
            \<and> connect_mock_users (snd l2) = connect_mock_users (snd l1)
            \<and> (distinct (map email (connect_mock_users c)) \<longrightarrow>
                 distinct (map email (connect_mock_users (snd l2))))"
    if "fst (request c out1) = None \<and> fst (request (snd l1) out2) = None
          \<and> list_all (\<lambda>u. user_id u \<noteq> []) (connect_mock_users c)"
    using that assms(7) unfolding l1_def l2_def by (intro register_local) simp_all
  have rem: "email (fst p1) = rd_email data \<and> user_id (fst p1) \<noteq> []
            \<and> user_id (fst p2) = user_id (fst p1) \<and> email (fst p2) = rd_email data
            \<and> connect_mock_users (snd p2) = connect_mock_users c"
    if "BASE_URL c \<noteq> ''LOCAL_MOCK''
          \<and> response_ok (fst (fst r1)) \<and> response_ok (fst (fst r2))
          \<and> oid1 \<noteq> [] \<and> list_all (\<lambda>u. user_id u \<noteq> []) (users d)"
    using that assms(7) unfolding p1_def p2_def r1_def r2_def by (intro register_remote) simp_all
  from loc rem show ?thesis by blast
qed

theorem register_twice_same_id_witness:
  "user_id (fst (ApiService_registerUser client0 NetworkError ''k3j9x0q1z'' 1000 ana)) = ''u-k3j9x0q1z''
   \<and> user_id (fst (ApiService_registerUser
        (snd (ApiService_registerUser client0 NetworkError ''k3j9x0q1z'' 1000 ana))
        NetworkError ''p7w2m5n8b'' 2000 ana)) = ''u-k3j9x0q1z''
   \<and> length (connect_mock_users (snd (ApiService_registerUser
        (snd (ApiService_registerUser client0 NetworkError ''k3j9x0q1z'' 1000 ana))
        NetworkError ''p7w2m5n8b'' 2000 ana))) = 1
   \<and> user_id (fst (ApiService_registerUser client0
        (user_reply (fst (UserController_registerUser db0 oid1 1000 (register_payload ana))))
        ''k3j9x0q1z'' 1000 ana)) = oid1
   \<and> user_id (fst (ApiService_registerUser
        (snd (ApiService_registerUser client0
           (user_reply (fst (UserController_registerUser db0 oid1 1000 (register_payload ana))))
           ''k3j9x0q1z'' 1000 ana))
        (user_reply (fst (UserController_registerUser
           (snd (UserController_registerUser db0 oid1 1000 (register_payload ana)))
           oid2 2000 (register_payload ana))))
        ''p7w2m5n8b'' 2000 ana)) = oid1"
proof -
  have l1: "user_id (fst (ApiService_registerUser client0 NetworkError ''k3j9x0q1z'' 1000 ana)) = ''u-k3j9x0q1z''"
    "length (connect_mock_users (snd (ApiService_registerUser client0 NetworkError ''k3j9x0q1z'' 1000 ana))) = 1"
    by (simp_all add: ApiService_registerUser_def request_def request_try_def client0_def Let_def)
  have h1: "fst (request c (NetworkError :: user fetch_outcome)) = None" for c
    by (simp add: request_def request_try_def)
  have h2: "list_all (\<lambda>u. user_id u \<noteq> []) (connect_mock_users client0)"
    "list_all (\<lambda>u. user_id u \<noteq> []) (users db0)" "oid1 \<noteq> []"
    "BASE_URL client0 \<noteq> ''LOCAL_MOCK''"
    by (simp_all add: client0_def db0_def oid1_def)
  have p1: "user_id (fst (ApiService_registerUser client0
        (user_reply (fst (UserController_registerUser db0 oid1 1000 (register_payload ana))))
        ''k3j9x0q1z'' 1000 ana)) = oid1"
    by (simp add: ana_remote_first client_gets_reply[OF h2(4)] not_ok_errors ana_doc_def)
  have ok: "response_ok (fst (fst (UserController_registerUser db0 oid1 1000 (register_payload ana))))"
    "response_ok (fst (fst (UserController_registerUser
           (snd (UserController_registerUser db0 oid1 1000 (register_payload ana)))
           oid2 2000 (register_payload ana))))"
    by (simp_all add: ana_remote_first ana_remote_second not_ok_errors)
  show ?thesis
    using l1 p1 h1 h2 ok
      register_twice_same_id[where data = ana and data' = ana and c = client0
        and ?out1.0 = NetworkError and ?out2.0 = NetworkError
        and ?rnd1.0 = "''k3j9x0q1z''" and ?rnd2.0 = "''p7w2m5n8b''"
        and ?now1.0 = 1000 and ?now2.0 = 2000 and d = db0 and ?oid1.0 = oid1 and ?oid2.0 = oid2]
    by simp
qed

end
